theory Spec2Isabelle
  imports Main "HOL-Library.Word"
begin

unbundle bit_operations_syntax

section \<open>CAN transport (can\_esp\_lib.c)\<close>

subsection \<open>Identifier codec\<close>

text \<open>
  \<^verbatim>\<open>CAN_ESP_EncodeID(uint8_t priority, uint16_t module, uint16_t command)\<close> masks each
  argument, widens it to 32 bits and shifts it into place: priority in bits 26..28,
  module in bits 16..25, command in bits 0..15.
\<close>

definition CAN_ESP_EncodeID :: "8 word \<Rightarrow> 16 word \<Rightarrow> 16 word \<Rightarrow> 32 word" where
  "CAN_ESP_EncodeID priority module command =
     push_bit 26 ((ucast priority :: 32 word) AND 0x07) OR
     push_bit 16 ((ucast module :: 32 word) AND 0x03FF) OR
     ((ucast command :: 32 word) AND 0xFFFF)"

text \<open>
  \<^verbatim>\<open>CAN_ESP_DecodeID(id, *priority, *module, *command)\<close> writes through each output
  pointer that is not NULL. An output parameter is \<open>None\<close> for a NULL pointer and
  \<open>Some old\<close> for a location holding \<open>old\<close>; the result gives the locations afterwards.
\<close>

definition CAN_ESP_DecodeID ::
  "32 word \<Rightarrow> 8 word option \<Rightarrow> 16 word option \<Rightarrow> 16 word option
     \<Rightarrow> 8 word option \<times> 16 word option \<times> 16 word option" where
  "CAN_ESP_DecodeID ident priority module command =
     (map_option (\<lambda>_. ucast (drop_bit 26 ident AND 0x07)) priority,
      map_option (\<lambda>_. ucast (drop_bit 16 ident AND 0x03FF)) module,
      map_option (\<lambda>_. ucast (ident AND 0xFFFF)) command)"

subsection \<open>Status codes, constants and frames\<close>

datatype can_esp_status_t =
    CAN_ESP_OK
  | CAN_ESP_ERR_NULL_POINTER
  | CAN_ESP_ERR_INVALID_LENGTH
  | CAN_ESP_ERR_TRANSMIT
  | CAN_ESP_ERR_RECEIVE
  | CAN_ESP_ERR_DRIVER_INSTALL
  | CAN_ESP_ERR_DRIVER_START
  | CAN_ESP_ERR_DRIVER_STOP
  | CAN_ESP_ERR_DRIVER_UNINSTALL
  | CAN_ESP_ERR_TIMEOUT
  | CAN_ESP_ERR_UNKNOWN

definition CAN_MAX_DATA_LENGTH :: nat where
  "CAN_MAX_DATA_LENGTH = 8"

definition CAN_ESP_MAX_RETRANSMISSIONS :: nat where
  "CAN_ESP_MAX_RETRANSMISSIONS = 3"

definition CAN_ESP_BACKOFF_MS :: nat where
  "CAN_ESP_BACKOFF_MS = 50"

definition TX_QUEUE_LENGTH :: nat where
  "TX_QUEUE_LENGTH = 32"

text \<open>
  The fields of \<^verbatim>\<open>CanEspConfig_t\<close> that the functions below read. The GPIO numbers, the
  acceptance filter, the controller mode and the custom timing are handed to the driver at
  installation only and are left out.
\<close>

record CanEspConfig_t =
  bitrate :: "32 word"
  transmit_timeout_ms :: "32 word"
  receive_timeout_ms :: "32 word"
  auto_retransmit :: bool
  debug_level :: "8 word"
  self_rx :: bool
  use_checksum :: bool

text \<open>
  \<^verbatim>\<open>CanEspMessage_t\<close> and the driver's \<^verbatim>\<open>twai_message_t\<close>. The payload arrays
  \<^verbatim>\<open>data[8]\<close> are byte lists; field names carry a suffix where the C name is taken in HOL.
\<close>

record CanEspMessage_t =
  id_msg :: "32 word"
  length_msg :: "8 word"
  data_msg :: "8 word list"
  retry_count :: "8 word"

record twai_message_t =
  identifier_twai :: "32 word"
  data_length_code :: "8 word"
  data_twai :: "8 word list"
  extd :: bool
  rtr :: bool
  ss :: bool
  self_twai :: bool

record CanEspLatencyMetrics_t =
  num_samples :: "32 word"
  total_latency :: "64 word"
  min_latency :: "64 word"
  max_latency :: "64 word"

text \<open>
  The module's static variables. \<open>txQueue\<close> is \<open>None\<close> while the handle is NULL, and
  otherwise the queued frames, front first. \<open>canTxTaskPriority\<close> is \<open>None\<close> while
  \<^verbatim>\<open>canTxTaskHandle\<close> is NULL, and otherwise the task's priority. \<open>transmit_callback\<close> says
  whether a callback is registered.
\<close>

record can_esp_state =
  currentConfig :: CanEspConfig_t
  txQueue :: "CanEspMessage_t list option"
  canTxTaskPriority :: "nat option"
  transmit_callback :: bool
  totalRetransmissions :: "32 word"
  totalCollisions :: "32 word"
  totalTransmissionAttempts :: "32 word"
  latencyMetrics :: CanEspLatencyMetrics_t
  busLoadTotalTime :: "64 word"

text \<open>
  What a call does to its environment, in order: a frame handed to \<^verbatim>\<open>twai_transmit\<close> with
  its timeout, an invocation of the transmit callback with its four arguments (the data
  pointer shown as the \<open>length\<close> bytes it points to), and \<^verbatim>\<open>vTaskDelay\<close>.
\<close>

datatype can_effect =
    TwaiTransmit twai_message_t "32 word"
  | TransmitCallback "32 word" "8 word list" "8 word" can_esp_status_t
  | TaskDelay nat

text \<open>
  \<^verbatim>\<open>memcpy(dst, src, n)\<close> on byte arrays: the first \<open>n\<close> bytes of \<open>dst\<close> are replaced.
  The C call requires both arrays to hold \<open>n\<close> bytes.
\<close>

definition memcpy_bytes :: "'a list \<Rightarrow> 'a list \<Rightarrow> nat \<Rightarrow> 'a list" where
  "memcpy_bytes dst src n = take n src @ drop n dst"

subsection \<open>Checksum, synchronous send and receive\<close>

text \<open>
  \<^verbatim>\<open>CAN_ESP_CalculateChecksum(data, length)\<close>: the loop
  \<^verbatim>\<open>for (i = 0; i < length; i++) cs ^= data[i]\<close> over the first \<open>length\<close> bytes, from
  \<open>cs = 0\<close>.
\<close>

primrec checksum_loop :: "8 word list \<Rightarrow> 8 word \<Rightarrow> 8 word" where
  "checksum_loop [] cs = cs"
| "checksum_loop (b # bs) cs = checksum_loop bs (cs XOR b)"

definition CAN_ESP_CalculateChecksum :: "8 word list \<Rightarrow> 8 word \<Rightarrow> 8 word" where
  "CAN_ESP_CalculateChecksum data len = checksum_loop (take (unat len) data) 0"

definition invoke_transmit_callback ::
  "can_esp_state \<Rightarrow> 32 word \<Rightarrow> 8 word list \<Rightarrow> 8 word \<Rightarrow> can_esp_status_t \<Rightarrow> can_effect list" where
  "invoke_transmit_callback st ident data len status =
     (if transmit_callback st then [TransmitCallback ident (take (unat len) data) len status] else [])"

text \<open>
  \<^verbatim>\<open>CAN_ESP_SendMessage(id, data, length)\<close>. \<open>data\<close> is \<open>None\<close> for a NULL pointer.
  \<open>driver_ok\<close> is the driver's answer to \<^verbatim>\<open>twai_transmit\<close>; \<open>stack_data\<close> is what the
  uninitialised local \<^verbatim>\<open>message.data\<close> holds on entry. The result is the status and what
  the call did.
\<close>

definition CAN_ESP_SendMessage ::
  "can_esp_state \<Rightarrow> bool \<Rightarrow> 8 word list \<Rightarrow> 32 word \<Rightarrow> 8 word list option \<Rightarrow> 8 word
     \<Rightarrow> can_esp_status_t \<times> can_effect list" where
  "CAN_ESP_SendMessage st driver_ok stack_data ident data len =
     (case data of
        None \<Rightarrow> (CAN_ESP_ERR_NULL_POINTER, [])
      | Some d \<Rightarrow>
          if unat len > CAN_MAX_DATA_LENGTH then (CAN_ESP_ERR_INVALID_LENGTH, [])
          else
            let message = \<lparr>identifier_twai = ident, data_length_code = len,
                             data_twai = memcpy_bytes stack_data d (unat len),
                             extd = True, rtr = False, ss = False,
                             self_twai = self_rx (currentConfig st)\<rparr>;
                framed =
                  (if use_checksum (currentConfig st) then
                     (if unat len < CAN_MAX_DATA_LENGTH then
                        Some (message\<lparr>data_twai := (data_twai message)[unat len := CAN_ESP_CalculateChecksum d len],
                                       data_length_code := len + 1\<rparr>)
                      else None)
                   else Some message)
            in (case framed of
                  None \<Rightarrow> (CAN_ESP_ERR_INVALID_LENGTH, [])
                | Some m \<Rightarrow>
                    if \<not> driver_ok then
                      (CAN_ESP_ERR_TRANSMIT,
                       TwaiTransmit m (transmit_timeout_ms (currentConfig st))
                         # invoke_transmit_callback st ident d len CAN_ESP_ERR_TRANSMIT)
                    else
                      (CAN_ESP_OK,
                       TwaiTransmit m (transmit_timeout_ms (currentConfig st))
                         # invoke_transmit_callback st ident d len CAN_ESP_OK)))"

text \<open>
  \<^verbatim>\<open>CAN_ESP_ReceiveMessage(message, timeout_ms)\<close>. \<open>driver_rx\<close> is the frame that
  \<^verbatim>\<open>twai_receive\<close> delivers, \<open>None\<close> when it does not return ESP\_OK. \<open>message\<close> is
  \<open>None\<close> for a NULL pointer, else the caller's struct; the result holds the struct afterwards
  (it is written before the checksum is verified). The driver delivers a data length code of
  at most 8.
\<close>

definition CAN_ESP_ReceiveMessage ::
  "can_esp_state \<Rightarrow> twai_message_t option \<Rightarrow> CanEspMessage_t option
     \<Rightarrow> can_esp_status_t \<times> CanEspMessage_t option" where
  "CAN_ESP_ReceiveMessage st driver_rx message =
     (case message of
        None \<Rightarrow> (CAN_ESP_ERR_NULL_POINTER, None)
      | Some m \<Rightarrow>
          (case driver_rx of
             None \<Rightarrow> (CAN_ESP_ERR_TIMEOUT, Some m)
           | Some rx_message \<Rightarrow>
               let m1 = m\<lparr>id_msg := identifier_twai rx_message,
                          length_msg := data_length_code rx_message,
                          data_msg := memcpy_bytes (data_msg m) (data_twai rx_message)
                                        (unat (data_length_code rx_message))\<rparr>
               in if use_checksum (currentConfig st) then
                    (if unat (length_msg m1) < 1 then (CAN_ESP_ERR_RECEIVE, Some m1)
                     else
                       let calc_cs = CAN_ESP_CalculateChecksum (data_msg m1) (length_msg m1 - 1)
                       in if calc_cs \<noteq> data_msg m1 ! unat (length_msg m1 - 1)
                          then (CAN_ESP_ERR_RECEIVE, Some m1)
                          else (CAN_ESP_OK, Some (m1\<lparr>length_msg := length_msg m1 - 1\<rparr>)))
                  else (CAN_ESP_OK, Some m1)))"

subsection \<open>Asynchronous transmission\<close>

text \<open>
  \<^verbatim>\<open>convert_canesp_to_twai(src, dst)\<close>, called with the addresses of two locals (never
  NULL). It copies \<open>length\<close> payload bytes and, in checksum mode, counts one more byte in the
  data length code.
\<close>

definition convert_canesp_to_twai ::
  "can_esp_state \<Rightarrow> CanEspMessage_t \<Rightarrow> twai_message_t \<Rightarrow> twai_message_t" where
  "convert_canesp_to_twai st src dst =
     dst\<lparr>identifier_twai := id_msg src,
         data_length_code :=
           (if use_checksum (currentConfig st) \<and> unat (length_msg src) < CAN_MAX_DATA_LENGTH
            then length_msg src + 1 else length_msg src),
         data_twai := memcpy_bytes (data_twai dst) (data_msg src) (unat (length_msg src)),
         extd := True, rtr := False, ss := False,
         self_twai := self_rx (currentConfig st)\<rparr>"

text \<open>
  \<^verbatim>\<open>CAN_ESP_EnqueueMessage(msg, high_priority)\<close>: the frame is copied, its
  \<^verbatim>\<open>retry_count\<close> is set to 0, and the copy goes to the front or to the back of the queue.
  The queue holds \<open>TX_QUEUE_LENGTH\<close> frames; on a full queue the send waits with
  \<^verbatim>\<open>portMAX_DELAY\<close>, which is the result \<open>None\<close>.
\<close>

definition CAN_ESP_EnqueueMessage ::
  "CanEspMessage_t option \<Rightarrow> bool \<Rightarrow> can_esp_state
     \<Rightarrow> (can_esp_status_t \<times> can_esp_state) option" where
  "CAN_ESP_EnqueueMessage msg high_priority st =
     (case msg of
        None \<Rightarrow> Some (CAN_ESP_ERR_NULL_POINTER, st)
      | Some m \<Rightarrow>
          (case txQueue st of
             None \<Rightarrow> Some (CAN_ESP_ERR_UNKNOWN, st)
           | Some q \<Rightarrow>
               let local_msg = m\<lparr>retry_count := 0\<rparr>
               in if TX_QUEUE_LENGTH \<le> length q then None
                  else if high_priority
                    then Some (CAN_ESP_OK, st\<lparr>txQueue := Some (local_msg # q)\<rparr>)
                    else Some (CAN_ESP_OK, st\<lparr>txQueue := Some (q @ [local_msg])\<rparr>)))"

text \<open>
  \<^verbatim>\<open>CAN_ESP_AdjustTransmitTaskPriority()\<close>: priority 15 from 80 percent of the queue's
  capacity on, back to 10 below it.
\<close>

definition CAN_ESP_AdjustTransmitTaskPriority ::
  "can_esp_state \<Rightarrow> can_esp_status_t \<times> can_esp_state" where
  "CAN_ESP_AdjustTransmitTaskPriority st =
     (case txQueue st of
        None \<Rightarrow> (CAN_ESP_ERR_UNKNOWN, st)
      | Some q \<Rightarrow>
          (case canTxTaskPriority st of
             None \<Rightarrow> (CAN_ESP_ERR_UNKNOWN, st)
           | Some currentPriority \<Rightarrow>
               let count = length q;
                   threshold = (TX_QUEUE_LENGTH * 80) div 100;
                   baselinePriority = 10;
                   highPriority = 15
               in if threshold \<le> count \<and> currentPriority < highPriority
                    then (CAN_ESP_OK, st\<lparr>canTxTaskPriority := Some highPriority\<rparr>)
                  else if count < threshold \<and> baselinePriority < currentPriority
                    then (CAN_ESP_OK, st\<lparr>canTxTaskPriority := Some baselinePriority\<rparr>)
                  else (CAN_ESP_OK, st)))"

text \<open>
  The latency bookkeeping of a successful transmission (signed 64-bit microseconds).
\<close>

definition update_latency :: "64 word \<Rightarrow> CanEspLatencyMetrics_t \<Rightarrow> CanEspLatencyMetrics_t" where
  "update_latency latency lm =
     (let lm1 = lm\<lparr>num_samples := num_samples lm + 1,
                    total_latency := total_latency lm + latency\<rparr>;
          lm2 = (if latency <s min_latency lm1 then lm1\<lparr>min_latency := latency\<rparr> else lm1)
      in if max_latency lm2 <s latency then lm2\<lparr>max_latency := latency\<rparr> else lm2)"

text \<open>
  One iteration of the endless loop of \<^verbatim>\<open>CAN_ESP_TransmitTask\<close>, on the module state and
  the task's local \<^verbatim>\<open>tx_msg\<close>. \<open>driver_ok\<close> is the driver's answer, \<open>tx_start\<close> and
  \<open>tx_end\<close> are the two timer readings. \<open>None\<close>: the task waits (empty queue, or a full
  queue on re-enqueueing).
\<close>

definition CAN_ESP_TransmitTask_iteration ::
  "bool \<Rightarrow> 64 word \<Rightarrow> 64 word \<Rightarrow> can_esp_state \<times> twai_message_t
     \<Rightarrow> ((can_esp_state \<times> twai_message_t) \<times> can_effect list) option" where
  "CAN_ESP_TransmitTask_iteration driver_ok tx_start tx_end s =
     (case s of (st, tx_msg0) \<Rightarrow>
       (case txQueue st of
          None \<Rightarrow> None
        | Some [] \<Rightarrow> None
        | Some (msg # q) \<Rightarrow>
            let tx_msg = convert_canesp_to_twai st msg tx_msg0;
                st1 = st\<lparr>txQueue := Some q,
                         totalTransmissionAttempts := totalTransmissionAttempts st + 1\<rparr>;
                sent = TwaiTransmit tx_msg (transmit_timeout_ms (currentConfig st))
            in if \<not> driver_ok then
                 (if unat (retry_count msg) < CAN_ESP_MAX_RETRANSMISSIONS then
                    let msg1 = msg\<lparr>retry_count := retry_count msg + 1\<rparr>;
                        st2 = st1\<lparr>totalRetransmissions := totalRetransmissions st1 + 1,
                                  totalCollisions := totalCollisions st1 + 1\<rparr>
                    in (case CAN_ESP_EnqueueMessage (Some msg1) True st2 of
                          None \<Rightarrow> None
                        | Some (_, st3) \<Rightarrow>
                            Some ((snd (CAN_ESP_AdjustTransmitTaskPriority st3), tx_msg),
                                  [sent, TaskDelay CAN_ESP_BACKOFF_MS]))
                  else
                    Some ((snd (CAN_ESP_AdjustTransmitTaskPriority st1), tx_msg),
                          sent # invoke_transmit_callback st1 (id_msg msg) (data_msg msg)
                                   (length_msg msg) CAN_ESP_ERR_TRANSMIT))
               else
                 let latency = tx_end - tx_start;
                     st2 = st1\<lparr>latencyMetrics := update_latency latency (latencyMetrics st1),
                               busLoadTotalTime := busLoadTotalTime st1 + latency\<rparr>
                 in Some ((snd (CAN_ESP_AdjustTransmitTaskPriority st2), tx_msg),
                          sent # invoke_transmit_callback st2 (id_msg msg) (data_msg msg)
                                   (length_msg msg) CAN_ESP_OK)))"

text \<open>
  The task's loop, run for as many iterations as the environment gives answers.
\<close>

fun CAN_ESP_TransmitTask ::
  "(bool \<times> 64 word \<times> 64 word) list \<Rightarrow> can_esp_state \<times> twai_message_t
     \<Rightarrow> ((can_esp_state \<times> twai_message_t) \<times> can_effect list) option" where
  "CAN_ESP_TransmitTask [] s = Some (s, [])"
| "CAN_ESP_TransmitTask ((driver_ok, tx_start, tx_end) # env) s =
     (case CAN_ESP_TransmitTask_iteration driver_ok tx_start tx_end s of
        None \<Rightarrow> None
      | Some (s1, es1) \<Rightarrow>
          (case CAN_ESP_TransmitTask env s1 of
             None \<Rightarrow> None
           | Some (s2, es2) \<Rightarrow> Some (s2, es1 @ es2)))"

fun is_TransmitCallback :: "can_effect \<Rightarrow> bool" where
  "is_TransmitCallback (TransmitCallback _ _ _ _) = True"
| "is_TransmitCallback _ = False"

text \<open>
  A state used to instantiate the theorems: the default configuration of the module with
  checksum mode switched on, before the transmit queue and task exist.
\<close>

definition example_can_state :: can_esp_state where
  "example_can_state =
     \<lparr>currentConfig = \<lparr>bitrate = 1000000, transmit_timeout_ms = 1000, receive_timeout_ms = 1000,
        auto_retransmit = True, debug_level = 2, self_rx = False, use_checksum = True\<rparr>,
      txQueue = None, canTxTaskPriority = None, transmit_callback = False,
      totalRetransmissions = 0, totalCollisions = 0, totalTransmissionAttempts = 0,
      latencyMetrics = \<lparr>num_samples = 0, total_latency = 0,
        min_latency = 0x7FFFFFFFFFFFFFFF, max_latency = 0\<rparr>,
      busLoadTotalTime = 0\<rparr>"

section \<open>OTA orchestrator (ota\_module.c)\<close>

subsection \<open>State\<close>

datatype ota_status_t =
    OTA_STATUS_IDLE
  | OTA_STATUS_UPDATE_AVAILABLE
  | OTA_STATUS_DOWNLOADING
  | OTA_STATUS_DISTRIBUTING
  | OTA_STATUS_APPLYING
  | OTA_STATUS_SUCCESS
  | OTA_STATUS_FAILURE
  | OTA_STATUS_ROLLBACK

definition OTA_PACKET_SIZE :: "32 word" where
  "OTA_PACKET_SIZE = 1024"

text \<open>
  \<^verbatim>\<open>ota_config_t\<close>: the installed firmware version of each ECU, the MQTT topics and the
  check interval.
\<close>

record ota_config_t =
  firmware_version_monitor :: "32 word"
  firmware_version_acceleration :: "32 word"
  firmware_version_steering :: "32 word"
  firmware_version_motor :: "32 word"
  firmware_version_brake :: "32 word"
  topic_monitor :: string
  topic_acceleration :: string
  topic_steering :: string
  topic_motor :: string
  topic_brake :: string
  check_interval_ms :: "32 word"

text \<open>
  \<^verbatim>\<open>ota_segment_t\<close>: a pointer into the firmware buffer and a size. The pointer
  \<^verbatim>\<open>firmware_data + i * OTA_PACKET_SIZE\<close> is kept as its 32-bit byte offset from
  \<^verbatim>\<open>firmware_data\<close>.
\<close>

record ota_segment_t =
  data_seg :: "32 word"
  size_seg :: "32 word"

text \<open>
  \<^verbatim>\<open>ota_module_context_t\<close>. The firmware buffer is \<open>None\<close> for a NULL pointer. Of the
  callback array only the number of registered callbacks is kept.
\<close>

record ota_module_context_t =
  status :: ota_status_t
  current_ecu :: string
  firmware_size :: "32 word"
  firmware_data :: "8 word list option"
  update_in_progress :: bool
  callback_count :: nat

text \<open>
  The static variables of the module: \<^verbatim>\<open>ota_config\<close>, \<^verbatim>\<open>ota_segments\<close> (\<open>None\<close> for
  NULL), \<^verbatim>\<open>ota_segment_count\<close> and \<^verbatim>\<open>ota_ctx\<close>.
\<close>

record ota_state =
  ota_config :: ota_config_t
  ota_segments :: "ota_segment_t list option"
  ota_segment_count :: "32 word"
  ota_ctx :: ota_module_context_t

text \<open>
  The collaborators' answers during one call: the MQTT module (the advertised version on a
  topic, \<open>None\<close> when none was received; whether a download succeeds), the SD card
  (a file's content, \<open>None\<close> when it cannot be read; whether a write succeeds), the routing
  module's answer for a segment sent to an ECU, \<^verbatim>\<open>malloc\<close> for the segment array, and the
  five steps of the platform's OTA interface.
\<close>

record ota_env =
  mqtt_get_update_version :: "string \<Rightarrow> 32 word option"
  mqtt_download_file :: "string \<Rightarrow> string \<Rightarrow> bool"
  sd_read_file :: "string \<Rightarrow> 8 word list option"
  sd_write_file :: "string \<Rightarrow> string \<Rightarrow> 32 word \<Rightarrow> bool"
  routing_send_message :: "string \<Rightarrow> ota_segment_t \<Rightarrow> bool"
  malloc_segments :: bool
  esp_ota_get_next_update_partition :: bool
  esp_ota_begin :: bool
  esp_ota_write :: bool
  esp_ota_end :: bool
  esp_ota_set_boot_partition :: bool

text \<open>
  What a call does to its environment: an invocation of the registered callback number
  \<open>i\<close> with a status and an ECU id, a download request, a write to the SD card (file name,
  buffer, length argument), and a segment handed to the routing module.
\<close>

datatype ota_effect =
    OtaCallback nat ota_status_t string
  | MqttDownloadFile string string
  | SdWriteFile string string "32 word"
  | RoutingSend string ota_segment_t

text \<open>
  The static initialisers of \<^verbatim>\<open>ota_config\<close>, \<^verbatim>\<open>ota_segments\<close>,
  \<^verbatim>\<open>ota_segment_count\<close> and \<^verbatim>\<open>ota_ctx\<close>.
\<close>

definition ota_initial_state :: ota_state where
  "ota_initial_state =
     \<lparr>ota_config =
        \<lparr>firmware_version_monitor = 1, firmware_version_acceleration = 1,
         firmware_version_steering = 1, firmware_version_motor = 1,
         firmware_version_brake = 1,
         topic_monitor = ''can-esp/firmware/update/monitor_ecu'',
         topic_acceleration = ''can-esp/firmware/update/acceleration_control_ecu'',
         topic_steering = ''can-esp/firmware/update/steering_control_ecu'',
         topic_motor = ''can-esp/firmware/update/motor_control_ecu'',
         topic_brake = ''can-esp/firmware/update/brake_control_ecu'',
         check_interval_ms = 60000\<rparr>,
      ota_segments = None,
      ota_segment_count = 0,
      ota_ctx = \<lparr>status = OTA_STATUS_IDLE, current_ecu = [], firmware_size = 0,
                 firmware_data = None, update_in_progress = False, callback_count = 0\<rparr>\<rparr>"

subsection \<open>Notification and rollback helpers\<close>

text \<open>
  Modelled from the spec: \<^verbatim>\<open>ota_notify_callbacks\<close> is declared in ota\_module.c and its
  body is not part of the sources. The spec: ``Up to 5 event subscribers receive
  (state, ecu\_id, opaque\_data) on every state transition.'' Every registered callback is
  invoked once, in registration order.
\<close>

definition ota_notify_callbacks :: "ota_state \<Rightarrow> ota_status_t \<Rightarrow> string \<Rightarrow> ota_effect list" where
  "ota_notify_callbacks st s ecu_id =
     map (\<lambda>i. OtaCallback i s ecu_id) [0..<callback_count (ota_ctx st)]"

text \<open>
  The assignment \<^verbatim>\<open>ota_ctx.status = s\<close>.
\<close>

definition set_status :: "ota_status_t \<Rightarrow> ota_state \<Rightarrow> ota_state" where
  "set_status s st = st\<lparr>ota_ctx := (ota_ctx st)\<lparr>status := s\<rparr>\<rparr>"

text \<open>
  Modelled from the spec: \<^verbatim>\<open>ota_rollback\<close> is declared in ota\_module.c and its body is
  not part of the sources. The spec: ``rollback\_update(ecu). Sets ROLLBACK, notifies,
  returns true''; the comment in \<^verbatim>\<open>ota_module_rollback_update\<close> says the same of
  \<^verbatim>\<open>ota_rollback\<close>.
\<close>

definition ota_rollback :: "string \<Rightarrow> ota_state \<Rightarrow> ota_state \<times> ota_effect list" where
  "ota_rollback ecu_id st =
     (let st1 = set_status OTA_STATUS_ROLLBACK st
      in (st1, ota_notify_callbacks st1 OTA_STATUS_ROLLBACK ecu_id))"

subsection \<open>Version check, download and segmentation\<close>

text \<open>
  \<^verbatim>\<open>%u\<close> of \<^verbatim>\<open>snprintf\<close>: an unsigned number in decimal.
\<close>

definition digit_char :: "nat \<Rightarrow> char" where
  "digit_char d = ''0123456789'' ! d"

fun dec_of_nat :: "nat \<Rightarrow> string" where
  "dec_of_nat n =
     (if n < 10 then [digit_char n]
      else dec_of_nat (n div 10) @ [digit_char (n mod 10)])"

declare dec_of_nat.simps [simp del]

text \<open>
  The chain of \<^verbatim>\<open>strcmp\<close> tests in \<^verbatim>\<open>ota_module_check_version\<close> that selects the
  installed version of an ECU; \<open>None\<close> for an unknown ECU id.
\<close>

definition installed_version :: "ota_config_t \<Rightarrow> string \<Rightarrow> 32 word option" where
  "installed_version cfg ecu_id =
     (if ecu_id = ''monitor_ecu'' then Some (firmware_version_monitor cfg)
      else if ecu_id = ''acceleration_control_ecu'' then Some (firmware_version_acceleration cfg)
      else if ecu_id = ''steering_control_ecu'' then Some (firmware_version_steering cfg)
      else if ecu_id = ''motor_control_ecu'' then Some (firmware_version_motor cfg)
      else if ecu_id = ''brake_control_ecu'' then Some (firmware_version_brake cfg)
      else None)"

text \<open>
  \<^verbatim>\<open>ota_module_check_version(ecu_id, available_version)\<close>. \<open>ecu_id\<close> is \<open>None\<close> for a
  NULL pointer. \<^verbatim>\<open>strncpy\<close> keeps at most 31 characters of the id. The advertised
  version is compared and not stored.
\<close>

definition ota_module_check_version ::
  "string option \<Rightarrow> 32 word \<Rightarrow> ota_state \<Rightarrow> bool \<times> ota_state \<times> ota_effect list" where
  "ota_module_check_version ecu_id available_version st =
     (case ecu_id of
        None \<Rightarrow> (False, st, [])
      | Some e \<Rightarrow>
          (case installed_version (ota_config st) e of
             None \<Rightarrow> (False, st, [])
           | Some installed \<Rightarrow>
               if installed < available_version then
                 let st1 = st\<lparr>ota_ctx := (ota_ctx st)\<lparr>status := OTA_STATUS_UPDATE_AVAILABLE,
                                                       current_ecu := take 31 e\<rparr>\<rparr>
                 in (True, st1, ota_notify_callbacks st1 OTA_STATUS_UPDATE_AVAILABLE e)
               else (False, st, [])))"

text \<open>
  \<^verbatim>\<open>ota_module_check_update()\<close>: asks the MQTT module for the version advertised on the
  monitor topic.
\<close>

definition ota_module_check_update ::
  "ota_env \<Rightarrow> ota_state \<Rightarrow> bool \<times> ota_state \<times> ota_effect list" where
  "ota_module_check_update env st =
     (case mqtt_get_update_version env (topic_monitor (ota_config st)) of
        None \<Rightarrow> (False, st, [])
      | Some available_version \<Rightarrow>
          ota_module_check_version (Some ''monitor_ecu'') available_version st)"

text \<open>
  \<^verbatim>\<open>ota_module_load_firmware(filename)\<close>: the file size is a \<^verbatim>\<open>uint32_t\<close>.
\<close>

definition ota_module_load_firmware :: "ota_env \<Rightarrow> string \<Rightarrow> ota_state \<Rightarrow> bool \<times> ota_state" where
  "ota_module_load_firmware env filename st =
     (case sd_read_file env filename of
        None \<Rightarrow> (False, st)
      | Some file_data \<Rightarrow>
          if (of_nat (length file_data) :: 32 word) = 0 then (False, st)
          else (True, st\<lparr>ota_ctx := (ota_ctx st)\<lparr>firmware_data := Some file_data,
                                                   firmware_size := of_nat (length file_data)\<rparr>\<rparr>))"

text \<open>
  The chain of \<^verbatim>\<open>strcmp\<close> tests in \<^verbatim>\<open>ota_module_download_firmware\<close> that selects the
  topic and formats the file name from the installed version.
\<close>

definition download_topic_and_filename :: "ota_config_t \<Rightarrow> string \<Rightarrow> (string \<times> string) option" where
  "download_topic_and_filename cfg ecu_id =
     (if ecu_id = ''monitor_ecu'' then
        Some (topic_monitor cfg,
              ''firmware_monitor_ecu_v'' @ dec_of_nat (unat (firmware_version_monitor cfg)) @ ''.bin'')
      else if ecu_id = ''acceleration_control_ecu'' then
        Some (topic_acceleration cfg,
              ''firmware_acceleration_control_ecu_v''
                @ dec_of_nat (unat (firmware_version_acceleration cfg)) @ ''.bin'')
      else if ecu_id = ''steering_control_ecu'' then
        Some (topic_steering cfg,
              ''firmware_steering_control_ecu_v''
                @ dec_of_nat (unat (firmware_version_steering cfg)) @ ''.bin'')
      else if ecu_id = ''motor_control_ecu'' then
        Some (topic_motor cfg,
              ''firmware_motor_control_ecu_v'' @ dec_of_nat (unat (firmware_version_motor cfg)) @ ''.bin'')
      else if ecu_id = ''brake_control_ecu'' then
        Some (topic_brake cfg,
              ''firmware_brake_control_ecu_v'' @ dec_of_nat (unat (firmware_version_brake cfg)) @ ''.bin'')
      else None)"

text \<open>
  \<^verbatim>\<open>ota_module_download_firmware(ecu_id)\<close>. The only guard is the flag
  \<^verbatim>\<open>update_in_progress\<close>.
\<close>

definition ota_module_download_firmware ::
  "ota_env \<Rightarrow> string option \<Rightarrow> ota_state \<Rightarrow> bool \<times> ota_state \<times> ota_effect list" where
  "ota_module_download_firmware env ecu_id st =
     (case ecu_id of
        None \<Rightarrow> (False, st, [])
      | Some e \<Rightarrow>
          if update_in_progress (ota_ctx st) then (False, st, [])
          else
            let st1 = st\<lparr>ota_ctx := (ota_ctx st)\<lparr>update_in_progress := True,
                                                  status := OTA_STATUS_DOWNLOADING\<rparr>\<rparr>;
                es1 = ota_notify_callbacks st1 OTA_STATUS_DOWNLOADING e
            in (case download_topic_and_filename (ota_config st1) e of
                  None \<Rightarrow>
                    (False, st1\<lparr>ota_ctx := (ota_ctx st1)\<lparr>update_in_progress := False\<rparr>\<rparr>, es1)
                | Some (topic, filename) \<Rightarrow>
                    if \<not> mqtt_download_file env topic filename then
                      let st2 = st1\<lparr>ota_ctx := (ota_ctx st1)\<lparr>update_in_progress := False,
                                                             status := OTA_STATUS_FAILURE\<rparr>\<rparr>
                      in (False, st2,
                          es1 @ [MqttDownloadFile topic filename]
                            @ ota_notify_callbacks st2 OTA_STATUS_FAILURE e)
                    else
                      (case ota_module_load_firmware env filename st1 of
                         (False, st2) \<Rightarrow>
                           let st3 = st2\<lparr>ota_ctx := (ota_ctx st2)\<lparr>update_in_progress := False,
                                                                  status := OTA_STATUS_FAILURE\<rparr>\<rparr>
                           in (False, st3,
                               es1 @ [MqttDownloadFile topic filename]
                                 @ ota_notify_callbacks st3 OTA_STATUS_FAILURE e)
                       | (True, st2) \<Rightarrow>
                           (True, st2, es1 @ [MqttDownloadFile topic filename]))))"

text \<open>
  The body of the segmentation loop for index \<open>i\<close>, in 32-bit unsigned arithmetic.
\<close>

definition segment_at :: "32 word \<Rightarrow> 32 word \<Rightarrow> ota_segment_t" where
  "segment_at fw_size i =
     \<lparr>data_seg = i * OTA_PACKET_SIZE,
      size_seg = (if OTA_PACKET_SIZE \<le> fw_size - i * OTA_PACKET_SIZE
                  then OTA_PACKET_SIZE
                  else fw_size - i * OTA_PACKET_SIZE)\<rparr>"

text \<open>
  \<^verbatim>\<open>ota_module_segment_firmware(firmware_data, firmware_size)\<close>. The number of segments is
  computed in \<^verbatim>\<open>uint32_t\<close>; the loop fills the array for \<open>i = 0, ..., num_segments - 1\<close>.
  The result of \<^verbatim>\<open>malloc\<close> is assigned to \<^verbatim>\<open>ota_segments\<close> before it is tested.
\<close>

definition ota_module_segment_firmware ::
  "ota_env \<Rightarrow> 8 word list option \<Rightarrow> 32 word \<Rightarrow> ota_state \<Rightarrow> bool \<times> ota_state" where
  "ota_module_segment_firmware env fw_data fw_size st =
     (case fw_data of
        None \<Rightarrow> (False, st)
      | Some buf \<Rightarrow>
          if fw_size = 0 then (False, st)
          else
            let num_segments = (fw_size + OTA_PACKET_SIZE - 1) div OTA_PACKET_SIZE
            in if \<not> malloc_segments env then (False, st\<lparr>ota_segments := None\<rparr>)
               else (True, st\<lparr>ota_segments :=
                                  Some (map (\<lambda>i. segment_at fw_size (of_nat i))
                                          [0..<unat num_segments]),
                                ota_segment_count := num_segments\<rparr>))"

text \<open>
  The bytes of the buffer that a segment descriptor denotes.
\<close>

definition segment_slice :: "8 word list \<Rightarrow> ota_segment_t \<Rightarrow> 8 word list" where
  "segment_slice buf seg = take (unat (size_seg seg)) (drop (unat (data_seg seg)) buf)"

subsection \<open>Distribution, application and persistence\<close>

text \<open>
  The loop of \<^verbatim>\<open>ota_module_distribute_firmware\<close>: it stops at the first segment that the
  routing module refuses.
\<close>

fun distribute_loop ::
  "(ota_segment_t \<Rightarrow> bool) \<Rightarrow> string \<Rightarrow> ota_segment_t list \<Rightarrow> bool \<times> ota_effect list" where
  "distribute_loop send ecu_id [] = (True, [])"
| "distribute_loop send ecu_id (seg # segs) =
     (if \<not> send seg then (False, [RoutingSend ecu_id seg])
      else (case distribute_loop send ecu_id segs of
              (ok, es) \<Rightarrow> (ok, RoutingSend ecu_id seg # es)))"

definition ota_module_distribute_firmware ::
  "ota_env \<Rightarrow> string option \<Rightarrow> ota_state \<Rightarrow> bool \<times> ota_state \<times> ota_effect list" where
  "ota_module_distribute_firmware env ecu_id st =
     (case ecu_id of
        None \<Rightarrow> (False, st, [])
      | Some e \<Rightarrow>
          (case ota_segments st of
             None \<Rightarrow> (False, st, [])
           | Some segs \<Rightarrow>
               let st1 = set_status OTA_STATUS_DISTRIBUTING st;
                   es1 = ota_notify_callbacks st1 OTA_STATUS_DISTRIBUTING e
               in (case distribute_loop (routing_send_message env e) e
                          (take (unat (ota_segment_count st1)) segs) of
                     (False, es2) \<Rightarrow>
                       let st2 = set_status OTA_STATUS_FAILURE st1
                       in (False, st2\<lparr>ota_segments := None, ota_segment_count := 0\<rparr>,
                           es1 @ es2 @ ota_notify_callbacks st2 OTA_STATUS_FAILURE e)
                   | (True, es2) \<Rightarrow>
                       (True, st1\<lparr>ota_segments := None, ota_segment_count := 0\<rparr>, es1 @ es2))))"

text \<open>
  The text that \<^verbatim>\<open>snprintf\<close> formats in \<^verbatim>\<open>ota_module_update_config\<close>.
\<close>

definition ota_config_text :: "ota_config_t \<Rightarrow> string" where
  "ota_config_text cfg =
     ''OTA_FIRMWARE_VERSION_MONITOR='' @ dec_of_nat (unat (firmware_version_monitor cfg)) @ [CHR 0x0A]
     @ ''OTA_FIRMWARE_VERSION_ACCELERATION='' @ dec_of_nat (unat (firmware_version_acceleration cfg)) @ [CHR 0x0A]
     @ ''OTA_FIRMWARE_VERSION_STEERING='' @ dec_of_nat (unat (firmware_version_steering cfg)) @ [CHR 0x0A]
     @ ''OTA_FIRMWARE_VERSION_MOTOR='' @ dec_of_nat (unat (firmware_version_motor cfg)) @ [CHR 0x0A]
     @ ''OTA_FIRMWARE_VERSION_BRAKE='' @ dec_of_nat (unat (firmware_version_brake cfg)) @ [CHR 0x0A]
     @ ''MQTT_TOPIC_MONITOR='' @ topic_monitor cfg @ [CHR 0x0A]
     @ ''MQTT_TOPIC_ACCELERATION='' @ topic_acceleration cfg @ [CHR 0x0A]
     @ ''MQTT_TOPIC_STEERING='' @ topic_steering cfg @ [CHR 0x0A]
     @ ''MQTT_TOPIC_MOTOR='' @ topic_motor cfg @ [CHR 0x0A]
     @ ''MQTT_TOPIC_BRAKE='' @ topic_brake cfg @ [CHR 0x0A]
     @ ''OTA_CHECK_INTERVAL_MS='' @ dec_of_nat (unat (check_interval_ms cfg)) @ [CHR 0x0A]"

text \<open>
  \<^verbatim>\<open>ota_module_update_config()\<close>: the text is formatted into a buffer of 512 bytes (at
  most 511 characters are kept) and \<^verbatim>\<open>sd_storage_module_write_file\<close> is called with the
  buffer and the length \<^verbatim>\<open>snprintf\<close> returned.
\<close>

definition ota_module_update_config :: "ota_env \<Rightarrow> ota_state \<Rightarrow> bool \<times> ota_effect list" where
  "ota_module_update_config env st =
     (let config_buffer = take 511 (ota_config_text (ota_config st));
          len = length (ota_config_text (ota_config st))
      in if len \<le> 0 then (False, [])
         else if \<not> sd_write_file env ''config.ini'' config_buffer (of_nat len)
           then (False, [SdWriteFile ''config.ini'' config_buffer (of_nat len)])
           else (True, [SdWriteFile ''config.ini'' config_buffer (of_nat len)]))"

text \<open>
  The failure exits of \<^verbatim>\<open>ota_module_apply_update\<close>: status FAILURE, notification,
  rollback, return false.
\<close>

definition apply_failure ::
  "string \<Rightarrow> ota_state \<Rightarrow> ota_effect list \<Rightarrow> bool \<times> ota_state \<times> ota_effect list" where
  "apply_failure e st es =
     (let st1 = set_status OTA_STATUS_FAILURE st;
          es1 = ota_notify_callbacks st1 OTA_STATUS_FAILURE e
      in case ota_rollback e st1 of (st2, es2) \<Rightarrow> (False, st2, es @ es1 @ es2))"

text \<open>
  \<^verbatim>\<open>ota_module_apply_update(ecu_id)\<close>. On success it sets the status, notifies, calls
  \<^verbatim>\<open>ota_module_update_config\<close>, frees the buffer and clears the flag. No statement of
  the function writes \<^verbatim>\<open>ota_config\<close>.
\<close>

definition ota_module_apply_update ::
  "ota_env \<Rightarrow> string option \<Rightarrow> ota_state \<Rightarrow> bool \<times> ota_state \<times> ota_effect list" where
  "ota_module_apply_update env ecu_id st =
     (case ecu_id of
        None \<Rightarrow> (False, st, [])
      | Some e \<Rightarrow>
          let st1 = set_status OTA_STATUS_APPLYING st;
              es1 = ota_notify_callbacks st1 OTA_STATUS_APPLYING e
          in if \<not> esp_ota_get_next_update_partition env then apply_failure e st1 es1
             else if \<not> esp_ota_begin env then apply_failure e st1 es1
             else if \<not> esp_ota_write env then apply_failure e st1 es1
             else if \<not> esp_ota_end env then apply_failure e st1 es1
             else if \<not> esp_ota_set_boot_partition env then apply_failure e st1 es1
             else
               let st2 = set_status OTA_STATUS_SUCCESS st1;
                   es2 = ota_notify_callbacks st2 OTA_STATUS_SUCCESS e;
                   es3 = snd (ota_module_update_config env st2);
                   st3 = st2\<lparr>ota_ctx := (ota_ctx st2)\<lparr>firmware_data := None,
                                                        update_in_progress := False\<rparr>\<rparr>
               in (True, st3, es1 @ es2 @ es3))"

definition ota_module_rollback_update ::
  "string \<Rightarrow> ota_state \<Rightarrow> bool \<times> ota_state \<times> ota_effect list" where
  "ota_module_rollback_update ecu_id st =
     (case ota_rollback ecu_id st of (st1, es) \<Rightarrow> (True, st1, es))"

definition ota_module_register_callback :: "bool \<Rightarrow> ota_state \<Rightarrow> bool \<times> ota_state" where
  "ota_module_register_callback callback_non_null st =
     (if \<not> callback_non_null then (False, st)
      else if 5 \<le> callback_count (ota_ctx st) then (False, st)
      else (True, st\<lparr>ota_ctx := (ota_ctx st)\<lparr>callback_count := callback_count (ota_ctx st) + 1\<rparr>\<rparr>))"


subsection \<open>Sequences of calls\<close>

text \<open>
  The calls of the module's interface that a supervisor makes during an update, and their
  effect on the module's state. \<^verbatim>\<open>ota_module_update_config\<close> does not change the state.
  Initialisation and \<^verbatim>\<open>ota_module_refresh_config\<close>, which reload the configuration from
  the file, are not among them.
\<close>

datatype ota_call =
    Call_check_version "string option" "32 word"
  | Call_check_update
  | Call_download_firmware "string option"
  | Call_segment_firmware "8 word list option" "32 word"
  | Call_distribute_firmware "string option"
  | Call_apply_update "string option"
  | Call_rollback_update string
  | Call_register_callback bool
  | Call_update_config

fun ota_run_call :: "ota_env \<Rightarrow> ota_call \<Rightarrow> ota_state \<Rightarrow> ota_state" where
  "ota_run_call env (Call_check_version ecu_id v) st = fst (snd (ota_module_check_version ecu_id v st))"
| "ota_run_call env Call_check_update st = fst (snd (ota_module_check_update env st))"
| "ota_run_call env (Call_download_firmware ecu_id) st =
     fst (snd (ota_module_download_firmware env ecu_id st))"
| "ota_run_call env (Call_segment_firmware fw_data fw_size) st =
     snd (ota_module_segment_firmware env fw_data fw_size st)"
| "ota_run_call env (Call_distribute_firmware ecu_id) st =
     fst (snd (ota_module_distribute_firmware env ecu_id st))"
| "ota_run_call env (Call_apply_update ecu_id) st = fst (snd (ota_module_apply_update env ecu_id st))"
| "ota_run_call env (Call_rollback_update ecu_id) st = fst (snd (ota_module_rollback_update ecu_id st))"
| "ota_run_call env (Call_register_callback cb) st = snd (ota_module_register_callback cb st)"
| "ota_run_call env Call_update_config st = st"

fun ota_run_calls :: "(ota_env \<times> ota_call) list \<Rightarrow> ota_state \<Rightarrow> ota_state" where
  "ota_run_calls [] st = st"
| "ota_run_calls ((env, c) # cs) st = ota_run_calls cs (ota_run_call env c st)"

subsection \<open>An example run\<close>

text \<open>
  An environment in which every collaborator succeeds: version 2 is advertised, the
  downloaded file holds three bytes. The states \<open>ota_run_s1\<close> to \<open>ota_run_s5\<close> are those
  after check, download, segmentation, distribution and application, starting from
  \<open>ota_initial_state\<close>. \<open>example_no_memory_env\<close> is the same environment with
  \<^verbatim>\<open>malloc\<close> returning NULL.
\<close>

definition example_ota_env :: ota_env where
  "example_ota_env =
     \<lparr>mqtt_get_update_version = (\<lambda>topic. Some 2),
      mqtt_download_file = (\<lambda>topic filename. True),
      sd_read_file = (\<lambda>filename. Some [0xE9, 0x01, 0x02]),
      sd_write_file = (\<lambda>filename buffer len. True),
      routing_send_message = (\<lambda>ecu_id seg. True),
      malloc_segments = True,
      esp_ota_get_next_update_partition = True,
      esp_ota_begin = True,
      esp_ota_write = True,
      esp_ota_end = True,
      esp_ota_set_boot_partition = True\<rparr>"

definition example_no_memory_env :: ota_env where
  "example_no_memory_env = example_ota_env\<lparr>malloc_segments := False\<rparr>"

definition ota_run_s1 :: ota_state where
  "ota_run_s1 = ota_initial_state
     \<lparr>ota_ctx := (ota_ctx ota_initial_state)
        \<lparr>status := OTA_STATUS_UPDATE_AVAILABLE, current_ecu := ''monitor_ecu''\<rparr>\<rparr>"

definition ota_run_s2 :: ota_state where
  "ota_run_s2 = ota_run_s1
     \<lparr>ota_ctx := (ota_ctx ota_run_s1)
        \<lparr>status := OTA_STATUS_DOWNLOADING, update_in_progress := True,
         firmware_data := Some [0xE9, 0x01, 0x02], firmware_size := 3\<rparr>\<rparr>"

definition ota_run_s3 :: ota_state where
  "ota_run_s3 = ota_run_s2
     \<lparr>ota_segments := Some [\<lparr>data_seg = 0, size_seg = 3\<rparr>], ota_segment_count := 1\<rparr>"

definition ota_run_s4 :: ota_state where
  "ota_run_s4 = ota_run_s2
     \<lparr>ota_ctx := (ota_ctx ota_run_s2)\<lparr>status := OTA_STATUS_DISTRIBUTING\<rparr>\<rparr>"

definition ota_run_s5 :: ota_state where
  "ota_run_s5 = ota_run_s1
     \<lparr>ota_ctx := (ota_ctx ota_run_s1)
        \<lparr>status := OTA_STATUS_SUCCESS, update_in_progress := False,
         firmware_data := None, firmware_size := 3\<rparr>\<rparr>"

section \<open>Routing module (routing\_module.c)\<close>

subsection \<open>Constants and tables\<close>

text \<open>
  The event and mode codes of \<^verbatim>\<open>routing_module.h\<close> are \<^verbatim>\<open>uint8_t\<close> values; the two
  tables have a fixed capacity.
\<close>

definition ROUTING_EVENT_TABLE_UPDATED :: "8 word" where
  "ROUTING_EVENT_TABLE_UPDATED = 0"

definition ROUTING_EVENT_NEIGHBOR_TABLE_UPDATED :: "8 word" where
  "ROUTING_EVENT_NEIGHBOR_TABLE_UPDATED = 1"

definition ROUTING_EVENT_ROUTE_FAILURE :: "8 word" where
  "ROUTING_EVENT_ROUTE_FAILURE = 2"

definition ROUTING_EVENT_MESSAGE_RECEIVED :: "8 word" where
  "ROUTING_EVENT_MESSAGE_RECEIVED = 3"




definition MAX_ROUTING_TABLE_ENTRIES :: nat where
  "MAX_ROUTING_TABLE_ENTRIES = 16"

definition MAX_NEIGHBOR_TABLE_ENTRIES :: nat where
  "MAX_NEIGHBOR_TABLE_ENTRIES = 8"

text \<open>
  A routing entry. \<^verbatim>\<open>dest_id\<close> and \<^verbatim>\<open>next_hop\<close> are \<^verbatim>\<open>char[32]\<close> buffers, kept here as
  character lists whose content as a C string ends at the first NUL.
\<close>

record routing_table_entry_t =
  dest_id :: string
  next_hop :: string
  cost :: "8 word"
  timestamp :: "32 word"

text \<open>
  \<^verbatim>\<open>routing_table_t\<close> and \<^verbatim>\<open>neighbor_table_t\<close>: an array and the number of its slots in
  use. The fields \<^verbatim>\<open>entries\<close> and \<^verbatim>\<open>count\<close> carry a suffix, since both structures use the
  same field names.
\<close>

record routing_table_t =
  entries_rt :: "routing_table_entry_t list"
  count_rt :: nat

record neighbor_table_entry_t =
  neighbor_id :: string
  rssi :: "8 word"
  link_quality :: "8 word"

record neighbor_table_t =
  entries_nt :: "neighbor_table_entry_t list"
  count_nt :: nat

text \<open>
  \<^verbatim>\<open>routing_config_t\<close>; its \<^verbatim>\<open>retry_count\<close> field is \<^verbatim>\<open>retry_count_cfg\<close> here, the plain name
  being the retry counter of a CAN frame.
\<close>

record routing_config_t =
  default_cost :: "8 word"
  retry_count_cfg :: "8 word"
  retry_delay_ms :: "32 word"

text \<open>
  The element type of the send queue: destination, a 256-byte payload buffer, the payload
  length and the routing mode.
\<close>

record routing_send_message_item_t =
  dest_id_item :: string
  data_item :: "8 word list"
  length_item :: "16 word"
  mode_item :: "8 word"

text \<open>
  The file-scope variables of \<^verbatim>\<open>routing_module.c\<close> that the functions below read or write.
  A registered callback is a number naming the function; the send queue is the list of
  the items waiting in the FreeRTOS queue, oldest first.
\<close>

record routing_state =
  routing_table :: routing_table_t
  neighbor_table :: neighbor_table_t
  routing_callbacks :: "nat list"
  routing_config :: routing_config_t
  routing_send_queue :: "routing_send_message_item_t list"

text \<open>
  The \<^verbatim>\<open>void *\<close> argument of a notification points to the routing table, to the neighbour
  table or to a destination string (possibly NULL).
\<close>

datatype routing_event_data =
    RoutingTableData routing_table_t
  | NeighborTableData neighbor_table_t
  | DestIdData "string option"

text \<open>
  What a function does to its environment: a call of a subscriber, a task delay, and the
  text written to a file.
\<close>

datatype routing_effect =
    RoutingCallback nat "8 word" routing_event_data
  | RoutingDelay "32 word"
  | ConfigFileWrite string string

text \<open>
  The tables are zero-initialised statics; the configuration starts with the defaults
  \<^verbatim>\<open>{1, 3, 500}\<close>.
\<close>

definition zero_routing_entry :: routing_table_entry_t where
  "zero_routing_entry =
     \<lparr>dest_id = replicate 32 (CHR 0x00), next_hop = replicate 32 (CHR 0x00),
      cost = 0, timestamp = 0\<rparr>"

definition routing_initial_state :: routing_state where
  "routing_initial_state =
     \<lparr>routing_table =
        \<lparr>entries_rt = replicate MAX_ROUTING_TABLE_ENTRIES zero_routing_entry, count_rt = 0\<rparr>,
      neighbor_table =
        \<lparr>entries_nt = replicate MAX_NEIGHBOR_TABLE_ENTRIES
           \<lparr>neighbor_id = replicate 32 (CHR 0x00), rssi = 0, link_quality = 0\<rparr>,
         count_nt = 0\<rparr>,
      routing_callbacks = [],
      routing_config = \<lparr>default_cost = 1, retry_count_cfg = 3, retry_delay_ms = 500\<rparr>,
      routing_send_queue = []\<rparr>"

text \<open>
  C strings. \<^verbatim>\<open>c_string n s\<close> is the content that \<^verbatim>\<open>strncmp\<close> with bound \<^verbatim>\<open>n\<close> looks at:
  the characters before the first NUL among the first \<^verbatim>\<open>n\<close>. Two buffers compare equal
  under \<^verbatim>\<open>strncmp(a, b, n) == 0\<close> exactly when these contents agree.
  \<^verbatim>\<open>snprintf_s n dst src\<close> is \<^verbatim>\<open>snprintf(dst, n, "%s", src)\<close>: at most \<^verbatim>\<open>n - 1\<close> characters
  and a terminator; the rest of the destination keeps its bytes.
\<close>

definition c_string :: "nat \<Rightarrow> string \<Rightarrow> string" where
  "c_string n s = takeWhile (\<lambda>c. c \<noteq> CHR 0x00) (take n s)"

definition strncmp_eq :: "string \<Rightarrow> string \<Rightarrow> nat \<Rightarrow> bool" where
  "strncmp_eq a b n = (c_string n a = c_string n b)"

definition snprintf_s :: "nat \<Rightarrow> string \<Rightarrow> string \<Rightarrow> string" where
  "snprintf_s n dst src =
     (let s = take (n - 1) (takeWhile (\<lambda>c. c \<noteq> CHR 0x00) src)
      in s @ CHR 0x00 # drop (Suc (length s)) dst)"

text \<open>
  \<^verbatim>\<open>routing_module_notify\<close> calls every registered callback, in registration order, with the
  event and its data.
\<close>

definition routing_module_notify ::
  "routing_state \<Rightarrow> 8 word \<Rightarrow> routing_event_data \<Rightarrow> routing_effect list" where
  "routing_module_notify st event data =
     map (\<lambda>cb. RoutingCallback cb event data) (routing_callbacks st)"

text \<open>
  The search loop shared by insert, update, remove and the send task: the first index below
  \<^verbatim>\<open>count\<close> whose \<^verbatim>\<open>dest_id\<close> equals the key under \<^verbatim>\<open>strncmp\<close> over the 32 bytes of the
  field.
\<close>

definition find_route_index :: "routing_table_t \<Rightarrow> string \<Rightarrow> nat option" where
  "find_route_index tbl dest =
     (case filter (\<lambda>i. strncmp_eq (dest_id (entries_rt tbl ! i)) dest 32) [0..<count_rt tbl] of
        [] \<Rightarrow> None
      | i # _ \<Rightarrow> Some i)"

text \<open>
  \<^verbatim>\<open>routing_module_insert_route\<close>: a null entry, an existing key and a full table are refused
  without any change and without notification; otherwise the entry is copied into slot
  \<^verbatim>\<open>count\<close>, the count grows by one and \<^verbatim>\<open>TABLE_UPDATED\<close> is notified with the table.
\<close>

definition routing_module_insert_route ::
  "routing_table_entry_t option \<Rightarrow> routing_state
     \<Rightarrow> bool \<times> routing_state \<times> routing_effect list" where
  "routing_module_insert_route entry st =
     (case entry of
        None \<Rightarrow> (False, st, [])
      | Some e \<Rightarrow>
          (case find_route_index (routing_table st) (dest_id e) of
             Some i \<Rightarrow> (False, st, [])
           | None \<Rightarrow>
               if MAX_ROUTING_TABLE_ENTRIES \<le> count_rt (routing_table st) then (False, st, [])
               else
                 let tbl = routing_table st;
                     tbl1 = tbl\<lparr>entries_rt := (entries_rt tbl)[count_rt tbl := e],
                                count_rt := count_rt tbl + 1\<rparr>;
                     st1 = st\<lparr>routing_table := tbl1\<rparr>
                 in (True, st1,
                     routing_module_notify st1 ROUTING_EVENT_TABLE_UPDATED (RoutingTableData tbl1))))"

text \<open>
  \<^verbatim>\<open>routing_module_update_route\<close> overwrites the first entry with the same key, the whole
  structure included, and notifies; a key that is not present returns false silently.
\<close>

definition routing_module_update_route ::
  "routing_table_entry_t option \<Rightarrow> routing_state
     \<Rightarrow> bool \<times> routing_state \<times> routing_effect list" where
  "routing_module_update_route entry st =
     (case entry of
        None \<Rightarrow> (False, st, [])
      | Some e \<Rightarrow>
          (case find_route_index (routing_table st) (dest_id e) of
             None \<Rightarrow> (False, st, [])
           | Some i \<Rightarrow>
               let tbl = routing_table st;
                   tbl1 = tbl\<lparr>entries_rt := (entries_rt tbl)[i := e]\<rparr>;
                   st1 = st\<lparr>routing_table := tbl1\<rparr>
               in (True, st1,
                   routing_module_notify st1 ROUTING_EVENT_TABLE_UPDATED (RoutingTableData tbl1))))"

text \<open>
  \<^verbatim>\<open>routing_module_remove_route\<close>: the inner loop copies slot \<^verbatim>\<open>j + 1\<close> to slot \<^verbatim>\<open>j\<close> for
  \<^verbatim>\<open>j\<close> from the index found up to \<^verbatim>\<open>count - 2\<close>, the last used slot is zeroed and the count
  drops by one. A key that is not present notifies \<^verbatim>\<open>ROUTE_FAILURE\<close> with the key.
\<close>

definition shift_entries_left ::
  "nat \<Rightarrow> nat \<Rightarrow> routing_table_entry_t list \<Rightarrow> routing_table_entry_t list" where
  "shift_entries_left i n es = fold (\<lambda>j es. es[j := es ! Suc j]) [i..<n] es"

definition routing_module_remove_route ::
  "string option \<Rightarrow> routing_state \<Rightarrow> bool \<times> routing_state \<times> routing_effect list" where
  "routing_module_remove_route dest st =
     (case dest of
        None \<Rightarrow> (False, st, [])
      | Some d \<Rightarrow>
          (case find_route_index (routing_table st) d of
             None \<Rightarrow>
               (False, st, routing_module_notify st ROUTING_EVENT_ROUTE_FAILURE (DestIdData (Some d)))
           | Some i \<Rightarrow>
               let tbl = routing_table st;
                   es1 = shift_entries_left i (count_rt tbl - 1) (entries_rt tbl);
                   es2 = es1[count_rt tbl - 1 := zero_routing_entry];
                   tbl1 = tbl\<lparr>entries_rt := es2, count_rt := count_rt tbl - 1\<rparr>;
                   st1 = st\<lparr>routing_table := tbl1\<rparr>
               in (True, st1,
                   routing_module_notify st1 ROUTING_EVENT_TABLE_UPDATED (RoutingTableData tbl1))))"

text \<open>
  A sequence of table operations, each applied to the state the previous one left; the
  results and notifications are dropped.
\<close>

datatype route_op =
    Insert_route "routing_table_entry_t option"
  | Update_route "routing_table_entry_t option"
  | Remove_route "string option"

fun apply_route_op :: "route_op \<Rightarrow> routing_state \<Rightarrow> routing_state" where
  "apply_route_op (Insert_route e) st = fst (snd (routing_module_insert_route e st))"
| "apply_route_op (Update_route e) st = fst (snd (routing_module_update_route e st))"
| "apply_route_op (Remove_route d) st = fst (snd (routing_module_remove_route d st))"

definition apply_route_ops :: "route_op list \<Rightarrow> routing_state \<Rightarrow> routing_state" where
  "apply_route_ops ops st = fold apply_route_op ops st"

text \<open>
  The keys of the used slots, as C strings.
\<close>

definition route_keys :: "routing_table_t \<Rightarrow> string list" where
  "route_keys tbl = map (\<lambda>e. c_string 32 (dest_id e)) (take (count_rt tbl) (entries_rt tbl))"

text \<open>
  The shape every reachable table has: 16 slots, a count within the capacity, and pairwise
  different keys among the used slots.
\<close>

definition table_ok :: "routing_table_t \<Rightarrow> bool" where
  "table_ok tbl \<longleftrightarrow>
     length (entries_rt tbl) = MAX_ROUTING_TABLE_ENTRIES
     \<and> count_rt tbl \<le> MAX_ROUTING_TABLE_ENTRIES
     \<and> distinct (route_keys tbl)"

text \<open>
  How a call of the routing module ends. \<^verbatim>\<open>Returns\<close>: it returns a value, with the state
  it leaves and what it did to its environment. \<^verbatim>\<open>Blocks\<close>: the calling task waits
  inside the call (on a queue, or on a mutex that is not given back), with the state and
  the effects up to that point. \<^verbatim>\<open>Undefined\<close>: the values held here do not determine
  what the C code does: it accesses memory outside an object, or reads a string past the
  last field that is described here.
\<close>

datatype 'a routing_outcome =
    Returns 'a routing_state "routing_effect list"
  | Blocks routing_state "routing_effect list"
  | Undefined

text \<open>
  Unbounded string reads (\<^verbatim>\<open>%s\<close>, \<^verbatim>\<open>strstr\<close>) start at a field and go on to the first NUL,
  wherever it is. \<^verbatim>\<open>field_bytes n s\<close> are the \<^verbatim>\<open>n\<close> bytes of a \<^verbatim>\<open>char[n]\<close> field (a list
  shorter than the field stands for a buffer whose remaining bytes are NUL), \<^verbatim>\<open>array_bytes\<close>
  the same for a \<^verbatim>\<open>uint8_t\<close> array, \<^verbatim>\<open>byte_char\<close> a byte read as a character, and
  \<^verbatim>\<open>c_string_at bytes\<close> the string that starts at the first of the given bytes, when it
  ends among them.
\<close>

definition field_bytes :: "nat \<Rightarrow> string \<Rightarrow> string" where
  "field_bytes n s = take n s @ replicate (n - length s) (CHR 0x00)"


definition byte_char :: "8 word \<Rightarrow> char" where
  "byte_char b = char_of (unat b)"

definition c_string_at :: "string \<Rightarrow> string option" where
  "c_string_at bytes =
     (if CHR 0x00 \<in> set bytes then Some (takeWhile (\<lambda>c. c \<noteq> CHR 0x00) bytes) else None)"


definition entry_next_hop_string :: "routing_table_entry_t \<Rightarrow> string option" where
  "entry_next_hop_string e =
     c_string_at (field_bytes 32 (next_hop e) @ [byte_char (cost e)])"

text \<open>
  The string that starts at \<^verbatim>\<open>neighbor_table.entries[i].neighbor_id\<close>. An entry is 34 bytes
  without padding (the id, \<^verbatim>\<open>rssi\<close>, \<^verbatim>\<open>link_quality\<close>), the array has 8 entries and is
  followed by the byte \<^verbatim>\<open>count\<close>; an index of 8 or more is outside the array.
\<close>

definition neighbor_entry_bytes :: "neighbor_table_entry_t \<Rightarrow> string" where
  "neighbor_entry_bytes e =
     field_bytes 32 (neighbor_id e) @ [byte_char (rssi e), byte_char (link_quality e)]"

definition neighbor_id_string :: "neighbor_table_t \<Rightarrow> nat \<Rightarrow> string option" where
  "neighbor_id_string nt i =
     (if MAX_NEIGHBOR_TABLE_ENTRIES \<le> i then None
      else c_string_at
             (concat (map neighbor_entry_bytes
                        (drop i (take MAX_NEIGHBOR_TABLE_ENTRIES (entries_nt nt))))
              @ [char_of (count_nt nt)]))"

text \<open>
  The body of the loop of \<^verbatim>\<open>routing_module_recalculate_routes\<close> for neighbour \<^verbatim>\<open>i\<close>: while
  there is room, slot \<^verbatim>\<open>count\<close> receives the neighbour's id as destination and as next hop
  (\<^verbatim>\<open>snprintf\<close> with \<^verbatim>\<open>%s\<close> into the 32-byte fields), the configured default cost and
  the tick count read at that moment. The tick count is read once per route written, so
  the route of neighbour \<^verbatim>\<open>i\<close> carries the \<^verbatim>\<open>i\<close>-th read, \<^verbatim>\<open>ticks i\<close>. \<^verbatim>\<open>None\<close> once a
  read was not determined.
\<close>

definition add_neighbor_route ::
  "(nat \<Rightarrow> 32 word) \<Rightarrow> routing_state \<Rightarrow> nat \<Rightarrow> routing_table_t option \<Rightarrow> routing_table_t option" where
  "add_neighbor_route ticks st i acc =
     (case acc of
        None \<Rightarrow> None
      | Some tbl \<Rightarrow>
          if count_rt tbl < MAX_ROUTING_TABLE_ENTRIES then
            (case neighbor_id_string (neighbor_table st) i of
               None \<Rightarrow> None
             | Some nid \<Rightarrow>
                 let old = entries_rt tbl ! count_rt tbl
                 in Some (tbl\<lparr>entries_rt := (entries_rt tbl)[count_rt tbl :=
                                  \<lparr>dest_id = snprintf_s 32 (dest_id old) nid,
                                   next_hop = snprintf_s 32 (next_hop old) nid,
                                   cost = default_cost (routing_config st),
                                   timestamp = ticks i\<rparr>],
                                count_rt := count_rt tbl + 1\<rparr>))
          else Some tbl)"

text \<open>
  \<^verbatim>\<open>routing_module_recalculate_routes\<close> takes \<^verbatim>\<open>routing_table_mutex\<close> with
  \<^verbatim>\<open>portMAX_DELAY\<close>, resets the count, runs the loop over the neighbours, gives the mutex
  back and notifies \<^verbatim>\<open>TABLE_UPDATED\<close>. The mutex is created by \<^verbatim>\<open>xSemaphoreCreateMutex\<close>,
  which is not recursive: when the calling task already holds it (\<^verbatim>\<open>mutex_held\<close>), the take
  never returns. Slots beyond the new count keep their old bytes.
\<close>

definition routing_module_recalculate_routes ::
  "bool \<Rightarrow> (nat \<Rightarrow> 32 word) \<Rightarrow> routing_state \<Rightarrow> bool routing_outcome" where
  "routing_module_recalculate_routes mutex_held ticks st =
     (if mutex_held then Blocks st []
      else
        (case fold (add_neighbor_route ticks st) [0..<count_nt (neighbor_table st)]
                (Some ((routing_table st)\<lparr>count_rt := 0\<rparr>)) of
           None \<Rightarrow> Undefined
         | Some tbl1 \<Rightarrow>
             let st1 = st\<lparr>routing_table := tbl1\<rparr>
             in Returns True st1
                  (routing_module_notify st1 ROUTING_EVENT_TABLE_UPDATED (RoutingTableData tbl1))))"

text \<open>
  \<^verbatim>\<open>routing_module_update_topology\<close>: a null pointer returns false. Otherwise it takes the
  mutex (never returning when the caller holds it), replaces the neighbour table, gives the
  mutex back, notifies \<^verbatim>\<open>NEIGHBOR_TABLE_UPDATED\<close> and returns what the recalculation of the
  routes returns.
\<close>

definition routing_module_update_topology ::
  "bool \<Rightarrow> (nat \<Rightarrow> 32 word) \<Rightarrow> neighbor_table_t option \<Rightarrow> routing_state
     \<Rightarrow> bool routing_outcome" where
  "routing_module_update_topology mutex_held ticks topology_info st =
     (case topology_info of
        None \<Rightarrow> Returns False st []
      | Some t \<Rightarrow>
          if mutex_held then Blocks st []
          else
            let st1 = st\<lparr>neighbor_table := t\<rparr>;
                es1 = routing_module_notify st1 ROUTING_EVENT_NEIGHBOR_TABLE_UPDATED
                        (NeighborTableData t)
            in (case routing_module_recalculate_routes False ticks st1 of
                  Returns r st2 es2 \<Rightarrow> Returns r st2 (es1 @ es2)
                | Blocks st2 es2 \<Rightarrow> Blocks st2 (es1 @ es2)
                | Undefined \<Rightarrow> Undefined))"

text \<open>
  \<^verbatim>\<open>routing_module_save_config\<close> opens \<^verbatim>\<open>/sdcard/config.ini\<close> for writing and prints the three
  keys. The only failure it reports is \<^verbatim>\<open>fopen\<close> returning NULL, which is the parameter
  \<^verbatim>\<open>fopen_ok\<close>; the results of \<^verbatim>\<open>fprintf\<close> and \<^verbatim>\<open>fclose\<close> are not looked at.
\<close>

definition routing_config_text :: "routing_config_t \<Rightarrow> string" where
  "routing_config_text cfg =
     ''ROUTING_DEFAULT_COST='' @ dec_of_nat (unat (default_cost cfg)) @ [CHR 0x0A]
     @ ''ROUTING_RETRY_COUNT='' @ dec_of_nat (unat (retry_count_cfg cfg)) @ [CHR 0x0A]
     @ ''ROUTING_RETRY_DELAY_MS='' @ dec_of_nat (unat (retry_delay_ms cfg)) @ [CHR 0x0A]"

definition routing_module_save_config :: "bool \<Rightarrow> routing_state \<Rightarrow> bool \<times> routing_effect list" where
  "routing_module_save_config fopen_ok st =
     (if \<not> fopen_ok then (False, [])
      else (True, [ConfigFileWrite ''/sdcard/config.ini'' (routing_config_text (routing_config st))]))"

text \<open>
  \<^verbatim>\<open>routing_module_set_config\<close>: a null pointer returns false. Otherwise the three fields are
  stored, \<^verbatim>\<open>routing_module_save_config\<close> is called with its result cast to \<^verbatim>\<open>void\<close>, and
  the function returns true.
\<close>

definition routing_module_set_config ::
  "bool \<Rightarrow> routing_config_t option \<Rightarrow> routing_state
     \<Rightarrow> bool \<times> routing_state \<times> routing_effect list" where
  "routing_module_set_config fopen_ok config st =
     (case config of
        None \<Rightarrow> (False, st, [])
      | Some c \<Rightarrow>
          let st1 = st\<lparr>routing_config := (routing_config st)
                       \<lparr>default_cost := default_cost c,
                        retry_count_cfg := retry_count_cfg c,
                        retry_delay_ms := retry_delay_ms c\<rparr>\<rparr>
          in (True, st1, snd (routing_module_save_config fopen_ok st1)))"

definition routing_module_get_config :: "bool \<Rightarrow> routing_state \<Rightarrow> bool \<times> routing_config_t option" where
  "routing_module_get_config config_non_null st =
     (if \<not> config_non_null then (False, None) else (True, Some (routing_config st)))"

subsection \<open>Send queue and send task\<close>







text \<open>
  The end of a successful route search in the unicast branch: the next hop of the entry
  found is read as a string (\<^verbatim>\<open>snprintf\<close> with \<^verbatim>\<open>%s\<close>) into a local buffer, which is
  only logged.
\<close>

definition unicast_route_found :: "routing_state \<Rightarrow> nat \<Rightarrow> routing_effect list \<Rightarrow> unit routing_outcome" where
  "unicast_route_found st i es =
     (case entry_next_hop_string (entries_rt (routing_table st) ! i) of
        None \<Rightarrow> Undefined
      | Some hop \<Rightarrow> Returns () st es)"

text \<open>
  The retry loop of the unicast branch, entered when the first search found no route:
  while attempts remain, wait \<^verbatim>\<open>retry_delay_ms\<close>, take \<^verbatim>\<open>routing_table_mutex\<close>, call
  \<^verbatim>\<open>routing_module_recalculate_routes\<close> and search again; when no attempt remains, notify
  \<^verbatim>\<open>ROUTE_FAILURE\<close> with the destination. The recalculation is called while the task
  holds the mutex. \<^verbatim>\<open>ticks k\<close> are the tick counts read during attempt \<^verbatim>\<open>k\<close>.
\<close>

primrec unicast_retry ::
  "nat \<Rightarrow> (nat \<Rightarrow> nat \<Rightarrow> 32 word) \<Rightarrow> string \<Rightarrow> nat \<Rightarrow> routing_state \<Rightarrow> routing_effect list
     \<Rightarrow> unit routing_outcome" where
  "unicast_retry 0 ticks dest attempts st es =
     Returns () st
       (es @ routing_module_notify st ROUTING_EVENT_ROUTE_FAILURE (DestIdData (Some dest)))"
| "unicast_retry (Suc n) ticks dest attempts st es =
     (let es1 = es @ [RoutingDelay (retry_delay_ms (routing_config st))]
      in case routing_module_recalculate_routes True (ticks attempts) st of
           Blocks st1 es2 \<Rightarrow> Blocks st1 (es1 @ es2)
         | Undefined \<Rightarrow> Undefined
         | Returns r st1 es2 \<Rightarrow>
             (case find_route_index (routing_table st1) dest of
                Some i \<Rightarrow> unicast_route_found st1 i (es1 @ es2)
              | None \<Rightarrow> unicast_retry n ticks dest (Suc attempts) st1 (es1 @ es2)))"


subsection \<open>Example values\<close>

definition example_route_a :: routing_table_entry_t where
  "example_route_a = \<lparr>dest_id = ''ECU_A'', next_hop = ''ECU_A'', cost = 1, timestamp = 100\<rparr>"

definition example_route_b :: routing_table_entry_t where
  "example_route_b = \<lparr>dest_id = ''ECU_B'', next_hop = ''ECU_A'', cost = 2, timestamp = 200\<rparr>"




section \<open>Monitor ECU: alerts and logger (alert\_module.c, logger\_module.c)\<close>

subsection \<open>Constants and data\<close>

definition ALERT_HISTORY_SIZE :: nat where
  "ALERT_HISTORY_SIZE = 100"

definition LOGGER_MAX_ENTRIES :: nat where
  "LOGGER_MAX_ENTRIES = 100"

definition LOGGER_MSG_MAX_SIZE :: nat where
  "LOGGER_MSG_MAX_SIZE = 128"

text \<open>
  The two level enumerations have the same three values in the same order;
  \<^verbatim>\<open>register_alert\<close> passes an \<^verbatim>\<open>AlertLevel_t\<close> where the logger expects a
  \<^verbatim>\<open>logger_level_t\<close>, which in C is the conversion of the underlying integer. The logger
  compares levels with \<^verbatim>\<open><\<close>, hence the rank.
\<close>

datatype AlertLevel_t =
    ALERT_LEVEL_INFO
  | ALERT_LEVEL_WARNING
  | ALERT_LEVEL_CRITICAL

datatype logger_level_t =
    LOGGER_LEVEL_INFO
  | LOGGER_LEVEL_WARNING
  | LOGGER_LEVEL_CRITICAL

fun logger_level_of_alert :: "AlertLevel_t \<Rightarrow> logger_level_t" where
  "logger_level_of_alert ALERT_LEVEL_INFO = LOGGER_LEVEL_INFO"
| "logger_level_of_alert ALERT_LEVEL_WARNING = LOGGER_LEVEL_WARNING"
| "logger_level_of_alert ALERT_LEVEL_CRITICAL = LOGGER_LEVEL_CRITICAL"

fun logger_level_rank :: "logger_level_t \<Rightarrow> nat" where
  "logger_level_rank LOGGER_LEVEL_INFO = 0"
| "logger_level_rank LOGGER_LEVEL_WARNING = 1"
| "logger_level_rank LOGGER_LEVEL_CRITICAL = 2"

text \<open>
  An alert of the history ring and an entry of the logger's ring: a 32-bit timestamp, a
  level and a 128-byte message buffer, kept as the C string it holds.
\<close>

record AlertData_t =
  timestamp_alert :: "32 word"
  level_alert :: AlertLevel_t
  message_alert :: string

record LoggerEntry_t =
  timestamp_log :: "32 word"
  level_log :: logger_level_t
  message_log :: string

text \<open>
  The thresholds, and the part of the diagnosis data that \<^verbatim>\<open>alert_module_check_conditions\<close>
  reads.
\<close>

record AlertThresholds_t =
  tx_error_threshold :: "32 word"
  rx_error_threshold :: "32 word"
  bus_load_threshold :: "32 word"
  retransmission_threshold :: "32 word"

record CanEspDiagnostics_t =
  tx_error_counter :: "32 word"
  rx_error_counter :: "32 word"
  bus_off :: bool

record DiagnosisData_t =
  can_diag :: CanEspDiagnostics_t
  bus_load :: "32 word"
  retransmission_count :: "32 word"
  collision_count :: "32 word"
  transmission_attempts :: "32 word"
  abnormal :: bool
  timestamp_diag :: "64 word"

text \<open>
  The file-scope variables of \<^verbatim>\<open>alert_module.c\<close> (history ring, write index, thresholds and
  the notification callback) and of \<^verbatim>\<open>logger_module.c\<close> (log ring, write index, minimum
  level and the logger's own alert callback). A callback is a number naming the function,
  \<^verbatim>\<open>None\<close> for NULL. \<^verbatim>\<open>rtc_reads\<close> counts the reads of the real-time clock, so that each
  read can return a different time.
\<close>

record monitor_state =
  alert_history :: "AlertData_t list"
  alert_index :: "32 word"
  alert_thresholds :: AlertThresholds_t
  notification_callback :: "nat option"
  log_buffer :: "LoggerEntry_t list"
  log_index :: "32 word"
  current_log_level :: logger_level_t
  alert_callback :: "nat option"
  rtc_reads :: nat

text \<open>
  The calls through function pointers that the two modules can make: one through the alert
  module's \<^verbatim>\<open>notification_callback\<close>, one through the logger's \<^verbatim>\<open>alert_callback\<close>.
\<close>

datatype monitor_effect =
    NotificationCallbackCall nat AlertData_t
  | LoggerAlertCallbackCall nat LoggerEntry_t

fun is_NotificationCallbackCall :: "monitor_effect \<Rightarrow> bool" where
  "is_NotificationCallbackCall (NotificationCallbackCall cb a) = True"
| "is_NotificationCallbackCall (LoggerAlertCallbackCall cb e) = False"

subsection \<open>Logger\<close>

text \<open>
  \<^verbatim>\<open>logger_module_get_rtc_timestamp\<close> asks the DS3231 for the time; the answer of the
  device at the n-th read is \<^verbatim>\<open>rtc n\<close> (0 when the read fails).
\<close>

definition logger_module_get_rtc_timestamp ::
  "(nat \<Rightarrow> 32 word) \<Rightarrow> monitor_state \<Rightarrow> 32 word \<times> monitor_state" where
  "logger_module_get_rtc_timestamp rtc st = (rtc (rtc_reads st), st\<lparr>rtc_reads := rtc_reads st + 1\<rparr>)"

text \<open>
  \<^verbatim>\<open>logger_module_log\<close> with the format \<^verbatim>\<open>"%s"\<close>, the only one the alert path uses. A
  null format or a level below the configured minimum returns at once. Otherwise the entry
  at \<^verbatim>\<open>log_index\<close> receives the timestamp, the level and the message cut to 127
  characters; for a warning or critical level the logger's alert callback, if set, is called
  with that entry; the index advances modulo the ring size. The mutex is taken with
  \<^verbatim>\<open>portMAX_DELAY\<close>, so it is always obtained.
\<close>

definition logger_module_log ::
  "(nat \<Rightarrow> 32 word) \<Rightarrow> logger_level_t \<Rightarrow> string option \<Rightarrow> monitor_state
     \<Rightarrow> monitor_state \<times> monitor_effect list" where
  "logger_module_log rtc level text st =
     (case text of
        None \<Rightarrow> (st, [])
      | Some t \<Rightarrow>
          if logger_level_rank level < logger_level_rank (current_log_level st) then (st, [])
          else
            (case logger_module_get_rtc_timestamp rtc st of
               (ts, st1) \<Rightarrow>
                 let entry = \<lparr>timestamp_log = ts, level_log = level,
                               message_log = take (LOGGER_MSG_MAX_SIZE - 1) t\<rparr>;
                     st2 = st1\<lparr>log_buffer := (log_buffer st1)[unat (log_index st1) := entry]\<rparr>;
                     es = (if level = LOGGER_LEVEL_WARNING \<or> level = LOGGER_LEVEL_CRITICAL
                           then (case alert_callback st2 of
                                   None \<Rightarrow> []
                                 | Some cb \<Rightarrow> [LoggerAlertCallbackCall cb entry])
                           else [])
                 in (st2\<lparr>log_index := (log_index st2 + 1) mod of_nat LOGGER_MAX_ENTRIES\<rparr>, es)))"

text \<open>
  \<^verbatim>\<open>logger_module_log_alert\<close> prefixes the message with \<^verbatim>\<open>ALERTA: \<close> in a 128-byte buffer
  and logs it.
\<close>

definition logger_module_log_alert ::
  "(nat \<Rightarrow> 32 word) \<Rightarrow> logger_level_t \<Rightarrow> string option \<Rightarrow> monitor_state
     \<Rightarrow> monitor_state \<times> monitor_effect list" where
  "logger_module_log_alert rtc level message st =
     (case message of
        None \<Rightarrow> (st, [])
      | Some m \<Rightarrow>
          logger_module_log rtc level
            (Some (take (LOGGER_MSG_MAX_SIZE - 1) (''ALERTA: '' @ m))) st)"

subsection \<open>Alert module\<close>

text \<open>
  \<^verbatim>\<open>register_alert\<close>: a null message returns at once. Otherwise the slot at
  \<^verbatim>\<open>alert_index\<close> receives the timestamp, the level and the message cut to 127 characters,
  the stored message goes to \<^verbatim>\<open>logger_module_log_alert\<close>, and the index advances modulo the
  ring size. The body has no other statement than these and two console logs.
\<close>

definition register_alert ::
  "(nat \<Rightarrow> 32 word) \<Rightarrow> AlertLevel_t \<Rightarrow> string option \<Rightarrow> monitor_state
     \<Rightarrow> monitor_state \<times> monitor_effect list" where
  "register_alert rtc level message st =
     (case message of
        None \<Rightarrow> (st, [])
      | Some m \<Rightarrow>
          (case logger_module_get_rtc_timestamp rtc st of
             (ts, st1) \<Rightarrow>
               let entry = \<lparr>timestamp_alert = ts, level_alert = level,
                             message_alert = take 127 m\<rparr>;
                   st2 = st1\<lparr>alert_history := (alert_history st1)[unat (alert_index st1) := entry]\<rparr>
               in (case logger_module_log_alert rtc (logger_level_of_alert level)
                          (Some (message_alert entry)) st2 of
                     (st3, es) \<Rightarrow>
                       (st3\<lparr>alert_index := (alert_index st3 + 1) mod of_nat ALERT_HISTORY_SIZE\<rparr>,
                        es))))"

text \<open>
  \<^verbatim>\<open>alert_module_check_conditions\<close> is four \<^verbatim>\<open>if\<close> statements in sequence, each calling
  \<^verbatim>\<open>register_alert\<close> when its condition holds: bus-off, error counters, bus load,
  retransmissions. All conditions read the diagnosis data and the thresholds, which
  \<^verbatim>\<open>register_alert\<close> does not change. The last message contains one non-ASCII letter,
  given by its two UTF-8 bytes.
\<close>

definition register_alert_if ::
  "bool \<Rightarrow> (nat \<Rightarrow> 32 word) \<Rightarrow> AlertLevel_t \<Rightarrow> string
     \<Rightarrow> monitor_state \<times> monitor_effect list \<Rightarrow> monitor_state \<times> monitor_effect list" where
  "register_alert_if cond rtc level message acc =
     (if cond then
        (case register_alert rtc level (Some message) (fst acc) of
           (st1, es) \<Rightarrow> (st1, snd acc @ es))
      else acc)"

definition alert_module_check_conditions ::
  "(nat \<Rightarrow> 32 word) \<Rightarrow> DiagnosisData_t option \<Rightarrow> monitor_state
     \<Rightarrow> monitor_state \<times> monitor_effect list" where
  "alert_module_check_conditions rtc diag st =
     (case diag of
        None \<Rightarrow> (st, [])
      | Some d \<Rightarrow>
          register_alert_if
            (retransmission_threshold (alert_thresholds st) < retransmission_count d)
            rtc ALERT_LEVEL_WARNING (''Alta taxa de retransmiss'' @ [CHR 0xC3, CHR 0xB5] @ ''es na rede CAN!'')
            (register_alert_if
               (bus_load_threshold (alert_thresholds st) < bus_load d)
               rtc ALERT_LEVEL_WARNING ''Carga do barramento CAN acima do limiar!''
               (register_alert_if
                  (tx_error_threshold (alert_thresholds st) < tx_error_counter (can_diag d)
                   \<or> rx_error_threshold (alert_thresholds st) < rx_error_counter (can_diag d))
                  rtc ALERT_LEVEL_WARNING ''Alta taxa de erros na rede CAN!''
                  (register_alert_if (bus_off (can_diag d))
                     rtc ALERT_LEVEL_CRITICAL ''Estado Bus-Off detectado!'' (st, [])))))"

text \<open>
  The remaining functions of the module. \<^verbatim>\<open>alert_module_get_history\<close> copies into the
  caller's buffer and \<^verbatim>\<open>alert_module_print_history\<close> only logs; neither changes the
  state.
\<close>

definition zero_alert :: AlertData_t where
  "zero_alert = \<lparr>timestamp_alert = 0, level_alert = ALERT_LEVEL_INFO,
                  message_alert = replicate 128 (CHR 0x00)\<rparr>"

definition alert_module_init :: "monitor_state \<Rightarrow> bool \<times> monitor_state" where
  "alert_module_init st =
     (True, st\<lparr>alert_history := replicate ALERT_HISTORY_SIZE zero_alert, alert_index := 0\<rparr>)"

definition alert_module_get_history ::
  "bool \<Rightarrow> 32 word \<Rightarrow> monitor_state \<Rightarrow> 32 word \<times> AlertData_t list" where
  "alert_module_get_history buffer_non_null max_entries st =
     (let n = (if max_entries < of_nat ALERT_HISTORY_SIZE then max_entries
               else of_nat ALERT_HISTORY_SIZE)
      in (n, if buffer_non_null then take (unat n) (alert_history st) else []))"

definition alert_module_set_thresholds ::
  "AlertThresholds_t option \<Rightarrow> monitor_state \<Rightarrow> monitor_state" where
  "alert_module_set_thresholds thresholds st =
     (case thresholds of None \<Rightarrow> st | Some t \<Rightarrow> st\<lparr>alert_thresholds := t\<rparr>)"

definition alert_module_register_notification_callback ::
  "nat option \<Rightarrow> monitor_state \<Rightarrow> monitor_state" where
  "alert_module_register_notification_callback callback st = st\<lparr>notification_callback := callback\<rparr>"

subsection \<open>Sequences of alert-module calls\<close>

text \<open>
  A call of one of the public functions of the alert module, and the run of a list of
  calls with the callback invocations it makes, in order.
\<close>

datatype alert_call =
    Alert_init
  | Alert_check_conditions "DiagnosisData_t option"
  | Alert_get_history bool "32 word"
  | Alert_print_history
  | Alert_set_thresholds "AlertThresholds_t option"
  | Alert_register_notification_callback "nat option"

fun alert_run_call ::
  "(nat \<Rightarrow> 32 word) \<Rightarrow> alert_call \<Rightarrow> monitor_state \<Rightarrow> monitor_state \<times> monitor_effect list" where
  "alert_run_call rtc Alert_init st = (snd (alert_module_init st), [])"
| "alert_run_call rtc (Alert_check_conditions diag) st = alert_module_check_conditions rtc diag st"
| "alert_run_call rtc (Alert_get_history b n) st = (st, [])"
| "alert_run_call rtc Alert_print_history st = (st, [])"
| "alert_run_call rtc (Alert_set_thresholds t) st = (alert_module_set_thresholds t st, [])"
| "alert_run_call rtc (Alert_register_notification_callback cb) st =
     (alert_module_register_notification_callback cb st, [])"

fun alert_run_calls ::
  "(nat \<Rightarrow> 32 word) \<Rightarrow> alert_call list \<Rightarrow> monitor_state \<Rightarrow> monitor_state \<times> monitor_effect list" where
  "alert_run_calls rtc [] st = (st, [])"
| "alert_run_calls rtc (c # cs) st =
     (case alert_run_call rtc c st of
        (st1, es1) \<Rightarrow>
          (case alert_run_calls rtc cs st1 of
             (st2, es2) \<Rightarrow> (st2, es1 @ es2)))"

section \<open>Properties\<close>

subsection \<open>Identifier codec\<close>

lemma mask3_numeral: "(0x07 :: 'a::len word) = mask 3"
  by (simp add: mask_eq_exp_minus_1)

lemma mask10_numeral: "(0x03FF :: 'a::len word) = mask 10"
  by (simp add: mask_eq_exp_minus_1)

lemma mask16_numeral: "(0xFFFF :: 'a::len word) = mask 16"
  by (simp add: mask_eq_exp_minus_1)

lemma mask29_numeral: "(0x1FFFFFFF :: 'a::len word) = mask 29"
  by (simp add: mask_eq_exp_minus_1)

lemmas id_masks = mask3_numeral mask10_numeral mask16_numeral mask29_numeral

lemma decode_priority_of_encode:
  "(ucast (drop_bit 26 (CAN_ESP_EncodeID p m c) AND 0x07) :: 8 word) = p AND 0x07"
  unfolding CAN_ESP_EncodeID_def id_masks
  by (rule bit_word_eqI) (auto simp: bit_simps)

lemma decode_module_of_encode:
  "(ucast (drop_bit 16 (CAN_ESP_EncodeID p m c) AND 0x03FF) :: 16 word) = m AND 0x03FF"
  unfolding CAN_ESP_EncodeID_def id_masks
  by (rule bit_word_eqI) (auto simp: bit_simps)

lemma decode_command_of_encode:
  "(ucast (CAN_ESP_EncodeID p m c AND 0xFFFF) :: 16 word) = c AND 0xFFFF"
  unfolding CAN_ESP_EncodeID_def id_masks
  by (rule bit_word_eqI) (auto simp: bit_simps)

lemma encode_of_decoded_fields:
  "CAN_ESP_EncodeID (ucast (drop_bit 26 i AND 0x07)) (ucast (drop_bit 16 i AND 0x03FF))
     (ucast (i AND 0xFFFF)) = i AND 0x1FFFFFFF"
  unfolding CAN_ESP_EncodeID_def id_masks
  apply (rule bit_word_eqI)
  subgoal for n
    by (cases "n < 16"; cases "n < 26") (auto simp: bit_simps)
  done

text \<open>
  C5. Decoding an encoded identifier returns the masked triple
  \<open>(p & 7, m & 0x3FF, c & 0xFFFF)\<close>, and encoding the decoded triple of any 32-bit
  identifier (in particular of every 29-bit one) returns \<open>id & 0x1FFFFFFF\<close>. All three
  output pointers are non-NULL; what they held before is irrelevant.
\<close>

theorem C5_id_codec_roundtrip:
  "CAN_ESP_DecodeID (CAN_ESP_EncodeID p m c) (Some p0) (Some m0) (Some c0)
     = (Some (p AND 0x07), Some (m AND 0x03FF), Some (c AND 0xFFFF))
   \<and> (\<exists>p' m' c'. CAN_ESP_DecodeID i (Some p0) (Some m0) (Some c0) = (Some p', Some m', Some c')
        \<and> CAN_ESP_EncodeID p' m' c' = i AND 0x1FFFFFFF)"
  by (simp add: CAN_ESP_DecodeID_def decode_priority_of_encode decode_module_of_encode
      decode_command_of_encode encode_of_decoded_fields)

subsection \<open>Checksum mode\<close>

lemma checksum_loop_acc: "checksum_loop xs a = a XOR checksum_loop xs 0"
proof (induction xs arbitrary: a)
  case Nil
  then show ?case by simp
next
  case (Cons x xs)
  have "checksum_loop (x # xs) a = (a XOR x) XOR checksum_loop xs 0"
    using Cons.IH[of "a XOR x"] by simp
  also have "\<dots> = a XOR (x XOR checksum_loop xs 0)" by (simp add: xor.assoc)
  also have "x XOR checksum_loop xs 0 = checksum_loop (x # xs) 0"
    using Cons.IH[of x] by simp
  finally show ?case .
qed

lemma checksum_loop_Cons: "checksum_loop (x # xs) 0 = x XOR checksum_loop xs 0"
  using checksum_loop_acc[of xs x] by simp

lemma checksum_loop_foldr: "checksum_loop xs 0 = foldr (XOR) xs 0"
  by (induction xs) (simp_all only: checksum_loop_Cons checksum_loop.simps(1) foldr.simps o_apply id_apply)

lemma checksum_loop_append:
  "checksum_loop (xs @ ys) 0 = checksum_loop xs 0 XOR checksum_loop ys 0"
  by (induction xs)
    (simp_all only: append.simps checksum_loop_Cons checksum_loop.simps(1) xor.assoc xor.left_neutral)

lemma xor_cancel_left_word:
  assumes "(c::8 word) XOR a = c XOR b"
  shows "a = b"
proof -
  have "c XOR (c XOR a) = c XOR (c XOR b)"
    using assms by simp
  then show ?thesis
    by (simp only: xor.assoc[symmetric] xor_self_eq xor.left_neutral)
qed

lemma xor_cancel_right_word:
  assumes "(a::8 word) XOR c = b XOR c"
  shows "a = b"
proof -
  have "(a XOR c) XOR c = (b XOR c) XOR c"
    using assms by simp
  then show ?thesis
    by (simp only: xor.assoc xor_self_eq xor.right_neutral)
qed

lemma checksum_loop_update:
  assumes "i < length xs" and "v \<noteq> xs ! i"
  shows "checksum_loop (xs[i := v]) 0 \<noteq> checksum_loop xs 0"
proof
  assume eq: "checksum_loop (xs[i := v]) 0 = checksum_loop xs 0"
  have u: "xs[i := v] = take i xs @ v # drop (Suc i) xs"
    using assms(1) by (rule upd_conv_take_nth_drop)
  have o: "xs = take i xs @ (xs ! i) # drop (Suc i) xs"
    using assms(1) by (rule id_take_nth_drop)
  have l: "checksum_loop (xs[i := v]) 0
        = checksum_loop (take i xs) 0 XOR (v XOR checksum_loop (drop (Suc i) xs) 0)"
    by (simp only: u checksum_loop_append checksum_loop_Cons)
  have "checksum_loop (take i xs @ (xs ! i) # drop (Suc i) xs) 0
        = checksum_loop (take i xs) 0 XOR ((xs ! i) XOR checksum_loop (drop (Suc i) xs) 0)"
    by (simp only: checksum_loop_append checksum_loop_Cons)
  then have r: "checksum_loop xs 0
        = checksum_loop (take i xs) 0 XOR ((xs ! i) XOR checksum_loop (drop (Suc i) xs) 0)"
    using o by simp
  from eq l r have "checksum_loop (take i xs) 0 XOR (v XOR checksum_loop (drop (Suc i) xs) 0)
      = checksum_loop (take i xs) 0 XOR ((xs ! i) XOR checksum_loop (drop (Suc i) xs) 0)"
    by simp
  then have "v XOR checksum_loop (drop (Suc i) xs) 0
      = (xs ! i) XOR checksum_loop (drop (Suc i) xs) 0"
    by (rule xor_cancel_left_word)
  then have "v = xs ! i" by (rule xor_cancel_right_word)
  with assms(2) show False by simp
qed

lemma memcpy_then_checksum_byte:
  assumes "length d < length stack_data"
  shows "(memcpy_bytes stack_data d (length d))[length d := c]
           = d @ c # drop (Suc (length d)) stack_data"
proof -
  have "drop (length d) stack_data = stack_data ! length d # drop (Suc (length d)) stack_data"
    using assms by (simp add: Cons_nth_drop_Suc)
  then show ?thesis
    by (simp add: memcpy_bytes_def list_update_append)
qed

lemma receive_with_checksum:
  assumes "use_checksum (currentConfig st)"
    and "unat (data_length_code rx) = Suc n"
  shows "CAN_ESP_ReceiveMessage st (Some rx) (Some m) =
     (let m1 = m\<lparr>id_msg := identifier_twai rx, length_msg := data_length_code rx,
                 data_msg := take (Suc n) (data_twai rx) @ drop (Suc n) (data_msg m)\<rparr>
      in if checksum_loop (take n (data_msg m1)) 0 \<noteq> data_msg m1 ! n
         then (CAN_ESP_ERR_RECEIVE, Some m1)
         else (CAN_ESP_OK, Some (m1\<lparr>length_msg := data_length_code rx - 1\<rparr>)))"
proof -
  have "unat (data_length_code rx - 1) = n"
    using assms(2) by (simp add: unat_minus_one unat_eq_zero[symmetric])
  then show ?thesis
    using assms
    by (simp add: CAN_ESP_ReceiveMessage_def Let_def CAN_ESP_CalculateChecksum_def memcpy_bytes_def)
qed


text \<open>
  C6. In checksum mode, for a payload \<open>d\<close> of \<open>n < 8\<close> bytes that the driver accepts:
  the frame handed to the driver carries \<open>n + 1\<close> bytes, \<open>d\<close> followed by the XOR of its
  bytes; receiving that frame succeeds and reports the identifier, the length \<open>n\<close> and the
  bytes of \<open>d\<close>; receiving it with any one of its \<open>n + 1\<close> bytes changed to another value
  fails with \<open>CAN_ESP_ERR_RECEIVE\<close>. A payload of 8 bytes is refused with
  \<open>CAN_ESP_ERR_INVALID_LENGTH\<close> and nothing is handed to the driver.
\<close>

theorem C6_checksum_roundtrip:
  assumes cs: "use_checksum (currentConfig st)"
    and len: "unat len = length d"
    and stack: "length stack_data = 8"
  shows
    "(length d < 8 \<longrightarrow>
        (\<exists>frame cb.
            CAN_ESP_SendMessage st True stack_data ident (Some d) len
              = (CAN_ESP_OK, TwaiTransmit frame (transmit_timeout_ms (currentConfig st)) # cb)
          \<and> unat (data_length_code frame) = Suc (length d)
          \<and> take (Suc (length d)) (data_twai frame) = d @ [foldr (XOR) d 0]
          \<and> (\<exists>m'. CAN_ESP_ReceiveMessage st (Some frame) (Some m) = (CAN_ESP_OK, Some m')
                  \<and> id_msg m' = ident \<and> length_msg m' = len
                  \<and> take (length d) (data_msg m') = d)
          \<and> (\<forall>i v. i \<le> length d \<and> v \<noteq> data_twai frame ! i \<longrightarrow>
                 fst (CAN_ESP_ReceiveMessage st
                        (Some (frame\<lparr>data_twai := (data_twai frame)[i := v]\<rparr>)) (Some m))
                   = CAN_ESP_ERR_RECEIVE)))
     \<and> (length d = 8 \<longrightarrow>
          CAN_ESP_SendMessage st driver_ok stack_data ident (Some d) len
            = (CAN_ESP_ERR_INVALID_LENGTH, []))"
proof (intro conjI impI)
  assume full: "length d = 8"
  show "CAN_ESP_SendMessage st driver_ok stack_data ident (Some d) len
          = (CAN_ESP_ERR_INVALID_LENGTH, [])"
    using cs len full by (simp add: CAN_ESP_SendMessage_def CAN_MAX_DATA_LENGTH_def Let_def)
next
  assume short: "length d < 8"
  define c where "c = checksum_loop d 0"
  define rest where "rest = drop (Suc (length d)) stack_data"
  define frame where
    "frame = \<lparr>identifier_twai = ident, data_length_code = len + 1, data_twai = d @ c # rest,
              extd = True, rtr = False, ss = False, self_twai = self_rx (currentConfig st)\<rparr>"
  have dlc: "unat (len + 1) = Suc (length d)"
    using len short by (simp add: unat_word_ariths)
  have upd: "(memcpy_bytes stack_data d (length d))[length d := c] = d @ c # rest"
    unfolding rest_def using short stack by (intro memcpy_then_checksum_byte) simp
  have send: "CAN_ESP_SendMessage st True stack_data ident (Some d) len
      = (CAN_ESP_OK, TwaiTransmit frame (transmit_timeout_ms (currentConfig st))
           # invoke_transmit_callback st ident d len CAN_ESP_OK)"
    using cs len short upd
    by (simp add: CAN_ESP_SendMessage_def CAN_MAX_DATA_LENGTH_def Let_def frame_def
        CAN_ESP_CalculateChecksum_def c_def)
  have wire: "take (Suc (length d)) (data_twai frame) = d @ [foldr (XOR) d 0]"
    by (simp add: frame_def c_def checksum_loop_foldr)
  have rx_dlc: "unat (data_length_code frame) = Suc (length d)"
    using dlc by (simp add: frame_def)
  have recv_ok: "\<exists>m'. CAN_ESP_ReceiveMessage st (Some frame) (Some m) = (CAN_ESP_OK, Some m')
                  \<and> id_msg m' = ident \<and> length_msg m' = len
                  \<and> take (length d) (data_msg m') = d"
    unfolding receive_with_checksum[OF cs rx_dlc]
    by (simp add: Let_def frame_def c_def nth_append)
  have recv_bad: "fst (CAN_ESP_ReceiveMessage st
                        (Some (frame\<lparr>data_twai := (data_twai frame)[i := v]\<rparr>)) (Some m))
                   = CAN_ESP_ERR_RECEIVE"
    if i: "i \<le> length d" and v: "v \<noteq> data_twai frame ! i" for i v
  proof -
    let ?fr = "frame\<lparr>data_twai := (data_twai frame)[i := v]\<rparr>"
    have d2: "unat (data_length_code ?fr) = Suc (length d)"
      using rx_dlc by simp
    show ?thesis
    proof (cases "i = length d")
      case True
      then have "v \<noteq> c" using v by (simp add: frame_def)
      then show ?thesis
        unfolding receive_with_checksum[OF cs d2]
        using True by (simp add: Let_def frame_def c_def nth_append list_update_append)
    next
      case False
      then have lt: "i < length d" using i by simp
      then have "v \<noteq> d ! i" using v by (simp add: frame_def nth_append)
      then have "checksum_loop (d[i := v]) 0 \<noteq> c"
        unfolding c_def using lt by (intro checksum_loop_update)
      then show ?thesis
        unfolding receive_with_checksum[OF cs d2]
        using lt by (simp add: Let_def frame_def nth_append list_update_append)
    qed
  qed
  show "\<exists>frame cb.
            CAN_ESP_SendMessage st True stack_data ident (Some d) len
              = (CAN_ESP_OK, TwaiTransmit frame (transmit_timeout_ms (currentConfig st)) # cb)
          \<and> unat (data_length_code frame) = Suc (length d)
          \<and> take (Suc (length d)) (data_twai frame) = d @ [foldr (XOR) d 0]
          \<and> (\<exists>m'. CAN_ESP_ReceiveMessage st (Some frame) (Some m) = (CAN_ESP_OK, Some m')
                  \<and> id_msg m' = ident \<and> length_msg m' = len
                  \<and> take (length d) (data_msg m') = d)
          \<and> (\<forall>i v. i \<le> length d \<and> v \<noteq> data_twai frame ! i \<longrightarrow>
                 fst (CAN_ESP_ReceiveMessage st
                        (Some (frame\<lparr>data_twai := (data_twai frame)[i := v]\<rparr>)) (Some m))
                   = CAN_ESP_ERR_RECEIVE)"
    using send rx_dlc wire recv_ok recv_bad by blast
qed


theorem C6_checksum_roundtrip_witness:
  "use_checksum (currentConfig example_can_state)
   \<and> unat (2 :: 8 word) = length [0x12, 0x34 :: 8 word]
   \<and> length [9, 9, 9, 9, 9, 9, 9, 9 :: 8 word] = 8
   \<and> length [0x12, 0x34 :: 8 word] < 8
   \<and> (\<exists>frame cb.
        CAN_ESP_SendMessage example_can_state True [9, 9, 9, 9, 9, 9, 9, 9] 0x100
            (Some [0x12, 0x34]) 2
          = (CAN_ESP_OK, TwaiTransmit frame 1000 # cb)
        \<and> take 3 (data_twai frame) = [0x12, 0x34, 0x26]
        \<and> fst (CAN_ESP_ReceiveMessage example_can_state (Some frame)
                 (Some \<lparr>id_msg = 0, length_msg = 0, data_msg = [0, 0, 0, 0, 0, 0, 0, 0],
                        retry_count = 0\<rparr>)) = CAN_ESP_OK
        \<and> fst (CAN_ESP_ReceiveMessage example_can_state
                 (Some (frame\<lparr>data_twai := (data_twai frame)[1 := 0x35]\<rparr>))
                 (Some \<lparr>id_msg = 0, length_msg = 0, data_msg = [0, 0, 0, 0, 0, 0, 0, 0],
                        retry_count = 0\<rparr>)) = CAN_ESP_ERR_RECEIVE)"
proof -
  let ?m = "\<lparr>id_msg = 0, length_msg = 0, data_msg = [0, 0, 0, 0, 0, 0, 0, 0 :: 8 word],
             retry_count = 0\<rparr>"
  have h1: "use_checksum (currentConfig example_can_state)"
    by (simp add: example_can_state_def)
  have h2: "unat (2 :: 8 word) = length [0x12, 0x34 :: 8 word]"
    by simp
  have h3: "length [9, 9, 9, 9, 9, 9, 9, 9 :: 8 word] = 8"
    by simp
  have h4: "length [0x12, 0x34 :: 8 word] < 8"
    by simp
  from C6_checksum_roundtrip [OF h1 h2 h3, of "0x100" ?m True] h4
  obtain frame cb where
    send: "CAN_ESP_SendMessage example_can_state True [9, 9, 9, 9, 9, 9, 9, 9] 0x100
             (Some [0x12, 0x34]) 2
           = (CAN_ESP_OK,
              TwaiTransmit frame (transmit_timeout_ms (currentConfig example_can_state)) # cb)"
    and wire: "take (Suc (length [0x12, 0x34 :: 8 word])) (data_twai frame)
           = [0x12, 0x34] @ [foldr (XOR) [0x12, 0x34] 0]"
    and ok: "\<exists>m'. CAN_ESP_ReceiveMessage example_can_state (Some frame) (Some ?m)
           = (CAN_ESP_OK, Some m')"
    and bad: "\<forall>i v. i \<le> length [0x12, 0x34 :: 8 word] \<and> v \<noteq> data_twai frame ! i \<longrightarrow>
           fst (CAN_ESP_ReceiveMessage example_can_state
                  (Some (frame\<lparr>data_twai := (data_twai frame)[i := v]\<rparr>)) (Some ?m))
             = CAN_ESP_ERR_RECEIVE"
    by blast
  have w3: "take 3 (data_twai frame) = [0x12, 0x34, 0x26]"
    using wire by (simp add: eval_nat_numeral)
  have "data_twai frame ! 1 = take 3 (data_twai frame) ! 1"
    by simp
  then have "(0x35 :: 8 word) \<noteq> data_twai frame ! 1"
    using w3 by simp
  then have b1: "fst (CAN_ESP_ReceiveMessage example_can_state
                  (Some (frame\<lparr>data_twai := (data_twai frame)[1 := 0x35]\<rparr>)) (Some ?m))
             = CAN_ESP_ERR_RECEIVE"
    using bad by simp
  have tmo: "transmit_timeout_ms (currentConfig example_can_state) = 1000"
    by (simp add: example_can_state_def)
  from ok have o1: "fst (CAN_ESP_ReceiveMessage example_can_state (Some frame) (Some ?m))
      = CAN_ESP_OK"
    by auto
  show ?thesis
    using h1 h2 h3 h4 send w3 o1 b1 unfolding tmo by blast
qed

subsection \<open>Retransmission in the TX task\<close>

lemma adjust_priority_frame:
  "txQueue (snd (CAN_ESP_AdjustTransmitTaskPriority st)) = txQueue st
   \<and> totalTransmissionAttempts (snd (CAN_ESP_AdjustTransmitTaskPriority st))
       = totalTransmissionAttempts st
   \<and> transmit_callback (snd (CAN_ESP_AdjustTransmitTaskPriority st)) = transmit_callback st"
  by (simp add: CAN_ESP_AdjustTransmitTaskPriority_def Let_def split: option.splits)

lemma failing_iteration_requeues:
  assumes "txQueue st = Some [m]" and "retry_count m = 0"
  shows "\<exists>st1 tx_msg1 es.
           CAN_ESP_TransmitTask_iteration False t0 t1 (st, tx_msg) = Some ((st1, tx_msg1), es)
         \<and> txQueue st1 = Some [m]
         \<and> totalTransmissionAttempts st1 = totalTransmissionAttempts st + 1
         \<and> filter is_TransmitCallback es = []"
  using assms
  by (simp add: CAN_ESP_TransmitTask_iteration_def Let_def CAN_ESP_MAX_RETRANSMISSIONS_def
      CAN_ESP_EnqueueMessage_def TX_QUEUE_LENGTH_def adjust_priority_frame)

lemma failing_driver_never_drops:
  assumes "txQueue st = Some [m]" and "retry_count m = 0"
  shows "\<exists>st1 tx_msg1 es.
           CAN_ESP_TransmitTask (replicate n (False, t0, t1)) (st, tx_msg) = Some ((st1, tx_msg1), es)
         \<and> txQueue st1 = Some [m]
         \<and> totalTransmissionAttempts st1 = totalTransmissionAttempts st + of_nat n
         \<and> filter is_TransmitCallback es = []"
  using assms
proof (induction n arbitrary: st tx_msg)
  case 0
  then show ?case by simp
next
  case (Suc n)
  from failing_iteration_requeues[OF Suc.prems, of t0 t1 tx_msg]
  obtain st1 tx1 es1 where
    it: "CAN_ESP_TransmitTask_iteration False t0 t1 (st, tx_msg) = Some ((st1, tx1), es1)"
    and q1: "txQueue st1 = Some [m]"
    and a1: "totalTransmissionAttempts st1 = totalTransmissionAttempts st + 1"
    and c1: "filter is_TransmitCallback es1 = []"
    by blast
  from Suc.IH[OF q1 Suc.prems(2), of tx1]
  obtain st2 tx2 es2 where
    run: "CAN_ESP_TransmitTask (replicate n (False, t0, t1)) (st1, tx1) = Some ((st2, tx2), es2)"
    and q2: "txQueue st2 = Some [m]"
    and a2: "totalTransmissionAttempts st2 = totalTransmissionAttempts st1 + of_nat n"
    and c2: "filter is_TransmitCallback es2 = []"
    by blast
  show ?case
    using it run q2 a1 a2 c1 c2 by (simp add: add.assoc)
qed

text \<open>
  C2. The TX task does not bound the retransmissions of a frame. A frame is enqueued on an
  empty queue and the driver refuses every transmission: after any number \<open>n\<close> of
  iterations the task has made \<open>n\<close> attempts, the frame is again alone on the queue with
  \<open>retry_count = 0\<close>, and the transmit callback has not been invoked. The task increments
  \<open>retry_count\<close> on its local copy, and \<open>CAN_ESP_EnqueueMessage\<close> resets it to 0 when the
  copy is put back.
\<close>

theorem C2_requeue_resets_retry_count:
  "\<exists>st0 st1 tx_msg1 es.
      CAN_ESP_EnqueueMessage (Some msg) high_priority (st\<lparr>txQueue := Some []\<rparr>)
        = Some (CAN_ESP_OK, st0)
    \<and> CAN_ESP_TransmitTask (replicate n (False, t0, t1)) (st0, tx_msg)
        = Some ((st1, tx_msg1), es)
    \<and> txQueue st1 = Some [msg\<lparr>retry_count := 0\<rparr>]
    \<and> totalTransmissionAttempts st1 = totalTransmissionAttempts st + of_nat n
    \<and> filter is_TransmitCallback es = []"
proof -
  define st0 where "st0 = st\<lparr>txQueue := Some [msg\<lparr>retry_count := 0\<rparr>]\<rparr>"
  have enq: "CAN_ESP_EnqueueMessage (Some msg) high_priority (st\<lparr>txQueue := Some []\<rparr>)
               = Some (CAN_ESP_OK, st0)"
    by (simp add: CAN_ESP_EnqueueMessage_def TX_QUEUE_LENGTH_def Let_def st0_def)
  have q0: "txQueue st0 = Some [msg\<lparr>retry_count := 0\<rparr>]"
    by (simp add: st0_def)
  have r0: "retry_count (msg\<lparr>retry_count := 0\<rparr>) = 0"
    by simp
  from failing_driver_never_drops[OF q0 r0, of n t0 t1 tx_msg]
  obtain st1 tx_msg1 es where
    "CAN_ESP_TransmitTask (replicate n (False, t0, t1)) (st0, tx_msg) = Some ((st1, tx_msg1), es)"
    "txQueue st1 = Some [msg\<lparr>retry_count := 0\<rparr>]"
    "totalTransmissionAttempts st1 = totalTransmissionAttempts st0 + of_nat n"
    "filter is_TransmitCallback es = []"
    by blast
  then show ?thesis
    using enq by (simp add: st0_def)
qed

subsection \<open>Firmware segmentation\<close>

lemma concat_chunks:
  "concat (map (\<lambda>i. take c (drop (c * i) xs)) [0..<k]) = take (c * k) xs"
proof (induction k)
  case 0
  then show ?case by simp
next
  case (Suc k)
  have "take (c * Suc k) xs = take (c * k + c) xs"
    by (simp add: add.commute)
  also have "\<dots> = take (c * k) xs @ take c (drop (c * k) xs)"
    by (rule take_add)
  finally show ?case using Suc by simp
qed

lemma unat_packet_size: "unat OTA_PACKET_SIZE = 1024"
  by (simp add: OTA_PACKET_SIZE_def)

lemma unat_num_segments:
  assumes "unat fw_size + 1023 < 2 ^ 32"
  shows "unat ((fw_size + OTA_PACKET_SIZE - 1) div OTA_PACKET_SIZE) = (unat fw_size + 1023) div 1024"
proof -
  have e: "fw_size + OTA_PACKET_SIZE - 1 = fw_size + 1023"
    by (simp add: OTA_PACKET_SIZE_def)
  have u: "unat (fw_size + 1023) = unat fw_size + 1023"
    using assms by (simp add: unat_word_ariths)
  show ?thesis
    unfolding e by (simp add: unat_div unat_packet_size u)
qed

lemma unat_segment_at:
  assumes "unat fw_size + 1023 < 2 ^ 32" and "1024 * i < unat fw_size"
  shows "unat (data_seg (segment_at fw_size (of_nat i))) = 1024 * i"
    and "unat (size_seg (segment_at fw_size (of_nat i))) = min 1024 (unat fw_size - 1024 * i)"
proof -
  have i32: "i < 2 ^ 32" using assms by simp
  have off: "unat ((of_nat i :: 32 word) * OTA_PACKET_SIZE) = 1024 * i"
    using assms by (simp add: unat_word_ariths unat_of_nat OTA_PACKET_SIZE_def)
  then show "unat (data_seg (segment_at fw_size (of_nat i))) = 1024 * i"
    by (simp add: segment_at_def)
  have le: "(of_nat i :: 32 word) * OTA_PACKET_SIZE \<le> fw_size"
    using off assms(2) by (simp add: word_le_nat_alt)
  have rest: "unat (fw_size - of_nat i * OTA_PACKET_SIZE) = unat fw_size - 1024 * i"
    using le off by (simp add: unat_sub)
  show "unat (size_seg (segment_at fw_size (of_nat i))) = min 1024 (unat fw_size - 1024 * i)"
    using rest by (simp add: segment_at_def word_le_nat_alt unat_packet_size min_def)
qed

lemma segment_slice_at:
  assumes "unat fw_size + 1023 < 2 ^ 32" and "1024 * i < unat fw_size"
    and "length buf = unat fw_size"
  shows "segment_slice buf (segment_at fw_size (of_nat i)) = take 1024 (drop (1024 * i) buf)"
  using assms unat_segment_at[OF assms(1,2)]
  by (simp add: segment_slice_def min_def)

lemma last_chunk_starts_inside:
  assumes "0 < (n::nat)" and "i < (n + 1023) div 1024"
  shows "1024 * i < n"
proof -
  have "Suc i * 1024 \<le> (n + 1023) div 1024 * 1024"
    using assms(2) by (intro mult_le_mono1) simp
  also have "\<dots> \<le> n + 1023"
    by (rule div_times_less_eq_dividend)
  finally show ?thesis by simp
qed


lemma chunks_cover: "(n::nat) \<le> 1024 * ((n + 1023) div 1024)"
proof -
  have "n + 1023 = 1024 * ((n + 1023) div 1024) + (n + 1023) mod 1024"
    by simp
  moreover have "(n + 1023) mod 1024 < 1024"
    by simp
  ultimately show ?thesis
    by linarith
qed

lemma segment_count_wraps:
  "((0xFFFFFC01 :: 32 word) + OTA_PACKET_SIZE - 1) div OTA_PACKET_SIZE = 0
   \<and> ((0xFFFFFC00 :: 32 word) + OTA_PACKET_SIZE - 1) div OTA_PACKET_SIZE = 4194303"
  by (simp add: OTA_PACKET_SIZE_def)

text \<open>
  Claim C7. For a non-NULL buffer of \<open>size\<close> bytes with \<open>0 < size\<close> and
  \<open>size + 1023 < 2^32\<close>: when the descriptor array is allocated,
  \<open>ota_module_segment_firmware\<close> returns true and leaves \<open>\<lceil>size / 1024\<rceil>\<close> descriptors:
  descriptor \<open>i\<close> starts at byte \<open>1024 * i\<close>, every descriptor but the last has size 1024,
  the last has the remaining \<open>size - 1024 * i\<close> bytes, and the slices concatenated in order
  are the buffer; when \<^verbatim>\<open>malloc\<close> returns NULL, it returns false and leaves
  \<^verbatim>\<open>ota_segments\<close> NULL, with no descriptor. A NULL buffer or a size of 0 returns false
  and changes nothing. (The bound on the size is where the 32-bit sum
  \<open>size + 1023\<close> does not wrap, see \<open>segment_count_wraps\<close>; every buffer that fits the
  memory of the target is below it.)
\<close>

theorem C7_segment_firmware:
  assumes len: "length buf = unat fw_size"
    and pos: "fw_size \<noteq> 0"
    and bound: "unat fw_size + 1023 < 2 ^ 32"
  shows
    "(malloc_segments env \<longrightarrow>
      (\<exists>segs.
        ota_module_segment_firmware env (Some buf) fw_size st
          = (True, st\<lparr>ota_segments := Some segs, ota_segment_count := of_nat (length segs)\<rparr>)
      \<and> length segs = (unat fw_size + 1023) div 1024
      \<and> (\<forall>i. i < length segs \<longrightarrow>
             unat (data_seg (segs ! i)) = 1024 * i
           \<and> unat (size_seg (segs ! i))
               = (if Suc i < length segs then 1024 else unat fw_size - 1024 * i))
      \<and> concat (map (segment_slice buf) segs) = buf))
     \<and> (\<not> malloc_segments env \<longrightarrow>
          ota_module_segment_firmware env (Some buf) fw_size st
            = (False, st\<lparr>ota_segments := None\<rparr>))
     \<and> ota_module_segment_firmware env None fw_size st = (False, st)
     \<and> ota_module_segment_firmware env (Some buf) 0 st = (False, st)"
proof (intro conjI impI)
  assume mem: "malloc_segments env"
  define n where "n = unat fw_size"
  define k where "k = (n + 1023) div 1024"
  define segs where "segs = map (\<lambda>i. segment_at fw_size (of_nat i)) [0..<k]"
  have npos: "0 < n"
    using pos by (simp add: n_def unat_gt_0)
  have num: "unat ((fw_size + OTA_PACKET_SIZE - 1) div OTA_PACKET_SIZE) = k"
    using unat_num_segments[OF bound] by (simp add: k_def n_def)
  have inside: "1024 * i < unat fw_size" if "i < k" for i
    using last_chunk_starts_inside[OF npos, of i] that by (simp add: k_def n_def)
  have lensegs: "length segs = k"
    by (simp add: segs_def)
  have count: "(of_nat (length segs) :: 32 word) = (fw_size + OTA_PACKET_SIZE - 1) div OTA_PACKET_SIZE"
  proof -
    have "(of_nat (unat ((fw_size + OTA_PACKET_SIZE - 1) div OTA_PACKET_SIZE)) :: 32 word)
        = (fw_size + OTA_PACKET_SIZE - 1) div OTA_PACKET_SIZE"
      by simp
    then show ?thesis using num lensegs by simp
  qed
  have run: "ota_module_segment_firmware env (Some buf) fw_size st
          = (True, st\<lparr>ota_segments := Some segs, ota_segment_count := of_nat (length segs)\<rparr>)"
  proof -
    have raw: "ota_module_segment_firmware env (Some buf) fw_size st
          = (True, st\<lparr>ota_segments :=
                Some (map (\<lambda>i. segment_at fw_size (of_nat i))
                  [0..<unat ((fw_size + OTA_PACKET_SIZE - 1) div OTA_PACKET_SIZE)]),
              ota_segment_count := (fw_size + OTA_PACKET_SIZE - 1) div OTA_PACKET_SIZE\<rparr>)"
      using pos mem by (simp add: ota_module_segment_firmware_def Let_def)
    show ?thesis
      by (simp only: raw num segs_def[symmetric] count)
  qed
  have k_le: "n \<le> 1024 * k"
    unfolding k_def by (rule chunks_cover)
  have fields: "unat (data_seg (segs ! i)) = 1024 * i
           \<and> unat (size_seg (segs ! i))
               = (if Suc i < length segs then 1024 else unat fw_size - 1024 * i)"
    if i: "i < length segs" for i
  proof -
    have ik: "i < k" using i lensegs by simp
    have nth: "segs ! i = segment_at fw_size (of_nat i)"
      using ik by (simp add: segs_def)
    have sz: "unat (size_seg (segs ! i)) = min 1024 (n - 1024 * i)"
      using unat_segment_at(2)[OF bound inside[OF ik]] by (simp add: nth n_def)
    have full: "1024 \<le> n - 1024 * i" if "Suc i < k"
      using inside[OF that] by (simp add: n_def)
    have last: "n - 1024 * i \<le> 1024" if "\<not> Suc i < k"
    proof -
      from that ik have "k = Suc i" by simp
      then show ?thesis using k_le by simp
    qed
    show ?thesis
      using unat_segment_at(1)[OF bound inside[OF ik]] sz full last lensegs
      by (auto simp: nth n_def min_def)
  qed
  have slices: "map (segment_slice buf) segs = map (\<lambda>i. take 1024 (drop (1024 * i) buf)) [0..<k]"
    unfolding segs_def using segment_slice_at[OF bound inside len] by simp
  have "concat (map (segment_slice buf) segs) = take (1024 * k) buf"
    unfolding slices by (rule concat_chunks)
  then have whole: "concat (map (segment_slice buf) segs) = buf"
    using k_le len by (simp add: n_def)
  show "\<exists>segs.
        ota_module_segment_firmware env (Some buf) fw_size st
          = (True, st\<lparr>ota_segments := Some segs, ota_segment_count := of_nat (length segs)\<rparr>)
      \<and> length segs = (unat fw_size + 1023) div 1024
      \<and> (\<forall>i. i < length segs \<longrightarrow>
             unat (data_seg (segs ! i)) = 1024 * i
           \<and> unat (size_seg (segs ! i))
               = (if Suc i < length segs then 1024 else unat fw_size - 1024 * i))
      \<and> concat (map (segment_slice buf) segs) = buf"
    using run lensegs fields whole unfolding k_def n_def by blast
next
  assume "\<not> malloc_segments env"
  then show "ota_module_segment_firmware env (Some buf) fw_size st
            = (False, st\<lparr>ota_segments := None\<rparr>)"
    using pos by (simp add: ota_module_segment_firmware_def Let_def)
next
  show "ota_module_segment_firmware env None fw_size st = (False, st)"
    by (simp add: ota_module_segment_firmware_def)
  show "ota_module_segment_firmware env (Some buf) 0 st = (False, st)"
    by (simp add: ota_module_segment_firmware_def)
qed

text \<open>
  The theorem at a buffer of 2500 bytes: three descriptors when the array is allocated,
  none when it is not.
\<close>

theorem C7_segment_firmware_witness:
  "length (replicate 2500 (0 :: 8 word)) = unat (2500 :: 32 word)
   \<and> (2500 :: 32 word) \<noteq> 0
   \<and> unat (2500 :: 32 word) + 1023 < 2 ^ 32
   \<and> malloc_segments example_ota_env
   \<and> (\<exists>segs.
         ota_module_segment_firmware example_ota_env (Some (replicate 2500 0)) 2500 ota_initial_state
           = (True, ota_initial_state\<lparr>ota_segments := Some segs,
                ota_segment_count := of_nat (length segs)\<rparr>)
       \<and> length segs = 3
       \<and> concat (map (segment_slice (replicate 2500 0)) segs) = replicate 2500 0)
   \<and> \<not> malloc_segments example_no_memory_env
   \<and> ota_module_segment_firmware example_no_memory_env (Some (replicate 2500 0)) 2500
         ota_initial_state
       = (False, ota_initial_state\<lparr>ota_segments := None\<rparr>)"
proof -
  have h1: "length (replicate 2500 (0 :: 8 word)) = unat (2500 :: 32 word)"
    by simp
  have h2: "(2500 :: 32 word) \<noteq> 0"
    by simp
  have h3: "unat (2500 :: 32 word) + 1023 < 2 ^ 32"
    by simp
  have h4: "malloc_segments example_ota_env"
    by (simp add: example_ota_env_def)
  have h5: "\<not> malloc_segments example_no_memory_env"
    by (simp add: example_no_memory_env_def example_ota_env_def)
  have k: "(unat (2500 :: 32 word) + 1023) div 1024 = 3"
    by simp
  from C7_segment_firmware [OF h1 h2 h3, of example_ota_env ota_initial_state] h4
  obtain segs where
    "ota_module_segment_firmware example_ota_env (Some (replicate 2500 0)) 2500 ota_initial_state
       = (True, ota_initial_state\<lparr>ota_segments := Some segs,
            ota_segment_count := of_nat (length segs)\<rparr>)"
    "length segs = (unat (2500 :: 32 word) + 1023) div 1024"
    "concat (map (segment_slice (replicate 2500 0)) segs) = replicate 2500 0"
    by blast
  moreover have "ota_module_segment_firmware example_no_memory_env (Some (replicate 2500 0)) 2500
         ota_initial_state
       = (False, ota_initial_state\<lparr>ota_segments := None\<rparr>)"
    using C7_segment_firmware [OF h1 h2 h3, of example_no_memory_env ota_initial_state] h5
    by blast
  ultimately show ?thesis
    using h1 h2 h3 h4 h5 unfolding k by blast
qed

text \<open>
  The claim as stated, for every non-null buffer and every size above 0, fails when the
  descriptor array cannot be allocated: after the download of the example run, with the
  three loaded bytes and \<^verbatim>\<open>malloc\<close> returning NULL, the function returns false and
  leaves no descriptor, where the claim promises one.
\<close>

theorem C7_segment_firmware_counterexample:
  "firmware_data (ota_ctx ota_run_s2) = Some [0xE9, 0x01, 0x02]
   \<and> firmware_size (ota_ctx ota_run_s2) = 3
   \<and> length [0xE9, 0x01, 0x02 :: 8 word] = unat (3 :: 32 word)
   \<and> (unat (3 :: 32 word) + 1023) div 1024 = 1
   \<and> ota_module_segment_firmware example_no_memory_env (Some [0xE9, 0x01, 0x02]) 3 ota_run_s2
       = (False, ota_run_s2\<lparr>ota_segments := None\<rparr>)"
  by (simp add: ota_module_segment_firmware_def Let_def example_no_memory_env_def
      example_ota_env_def ota_run_s2_def)

subsection \<open>The installed version after a successful update\<close>

lemma set_status_config [simp]: "ota_config (set_status s st) = ota_config st"
  by (simp add: set_status_def)

lemma check_version_config:
  "ota_config (fst (snd (ota_module_check_version ecu_id v st))) = ota_config st"
  by (simp add: ota_module_check_version_def Let_def split: option.splits)

lemma check_update_config:
  "ota_config (fst (snd (ota_module_check_update env st))) = ota_config st"
  by (simp add: ota_module_check_update_def check_version_config split: option.splits)

lemma load_firmware_config:
  "ota_config (snd (ota_module_load_firmware env filename st)) = ota_config st"
  by (simp add: ota_module_load_firmware_def split: option.splits)

lemma download_firmware_config:
  "ota_config (fst (snd (ota_module_download_firmware env ecu_id st))) = ota_config st"
proof -
  have l: "ota_module_load_firmware env f s = (b, s') \<Longrightarrow> ota_config s' = ota_config s" for f s b s'
    using load_firmware_config[of env f s] by simp
  show ?thesis
    by (auto simp: ota_module_download_firmware_def Let_def dest: l
        split: option.splits prod.splits bool.splits)
qed

lemma segment_firmware_config:
  "ota_config (snd (ota_module_segment_firmware env fw_data fw_size st)) = ota_config st"
  by (simp add: ota_module_segment_firmware_def Let_def split: option.splits)

lemma distribute_firmware_config:
  "ota_config (fst (snd (ota_module_distribute_firmware env ecu_id st))) = ota_config st"
  by (simp add: ota_module_distribute_firmware_def Let_def
      split: option.splits prod.splits bool.splits)

lemma rollback_config: "ota_config (fst (ota_rollback e st)) = ota_config st"
  by (simp add: ota_rollback_def Let_def)

lemma apply_update_config:
  "ota_config (fst (snd (ota_module_apply_update env ecu_id st))) = ota_config st"
  by (simp add: ota_module_apply_update_def apply_failure_def ota_rollback_def Let_def
      split: option.splits prod.splits)

lemma rollback_update_config:
  "ota_config (fst (snd (ota_module_rollback_update ecu_id st))) = ota_config st"
  by (simp add: ota_module_rollback_update_def ota_rollback_def Let_def)

lemma register_callback_config:
  "ota_config (snd (ota_module_register_callback cb st)) = ota_config st"
  by (simp add: ota_module_register_callback_def)

lemma ota_run_call_config: "ota_config (ota_run_call env c st) = ota_config st"
  by (cases c)
    (simp_all add: check_version_config check_update_config download_firmware_config
      segment_firmware_config distribute_firmware_config apply_update_config
      rollback_update_config register_callback_config)

lemma ota_run_calls_config: "ota_config (ota_run_calls cs st) = ota_config st"
  by (induction cs st rule: ota_run_calls.induct) (simp_all add: ota_run_call_config)

lemma check_version_available:
  assumes "ota_module_check_version (Some ecu) advertised st = (True, st1, es)"
  shows "\<exists>installed. installed_version (ota_config st) ecu = Some installed \<and> installed < advertised"
  using assms
  by (auto simp: ota_module_check_version_def Let_def split: option.splits if_splits)

lemma config_text_nonempty: "0 < length (ota_config_text cfg)"
  by (simp add: ota_config_text_def)

lemma apply_update_success:
  assumes "ota_module_apply_update env (Some ecu) st = (True, st1, es)"
  shows "status (ota_ctx st1) = OTA_STATUS_SUCCESS
       \<and> \<not> update_in_progress (ota_ctx st1)
       \<and> SdWriteFile ''config.ini'' (take 511 (ota_config_text (ota_config st)))
            (of_nat (length (ota_config_text (ota_config st)))) \<in> set es"
  using assms config_text_nonempty[of "ota_config st"]
  by (auto simp: ota_module_apply_update_def apply_failure_def ota_rollback_def Let_def
      set_status_def ota_module_update_config_def split: if_splits)

text \<open>
  Claim C1, which the code does not meet. An update run starts with
  \<open>ota_module_check_version\<close> reporting an update for an ECU, goes on with any calls of
  the module's interface that do not reload the configuration file, and ends with
  \<open>ota_module_apply_update\<close> returning true. Then the status is SUCCESS, and the OTA
  configuration is still the one the run started with: the installed version recorded for
  the ECU is the old one, strictly below the advertised version, where the claim has the
  two equal; and the text that \<open>ota_module_update_config\<close> hands to the SD card as the
  new content of config.ini carries the old version. \<open>ota_module_apply_update\<close> calls
  \<open>ota_module_update_config\<close> on its success path only, and that function is documented
  as persisting the updated parameters, the firmware versions among them; the assignment
  of the new version is missing.
\<close>

theorem C1_success_keeps_installed_version:
  assumes chk: "ota_module_check_version (Some ecu) advertised st0 = (True, st1, es1)"
    and app: "ota_module_apply_update env (Some ecu) (ota_run_calls calls st1) = (True, st3, es3)"
  shows "status (ota_ctx st3) = OTA_STATUS_SUCCESS
       \<and> ota_config st3 = ota_config st0
       \<and> (\<exists>installed. installed_version (ota_config st3) ecu = Some installed
             \<and> installed < advertised)
       \<and> SdWriteFile ''config.ini'' (take 511 (ota_config_text (ota_config st0)))
            (of_nat (length (ota_config_text (ota_config st0)))) \<in> set es3"
proof -
  have c1: "ota_config st1 = ota_config st0"
    using check_version_config[of "Some ecu" advertised st0] chk by simp
  have c2: "ota_config (ota_run_calls calls st1) = ota_config st0"
    using c1 by (simp add: ota_run_calls_config)
  have c3: "ota_config st3 = ota_config st0"
    using apply_update_config[of env "Some ecu" "ota_run_calls calls st1"] app c2 by simp
  show ?thesis
    using apply_update_success[OF app] check_version_available[OF chk] c2 c3 by simp
qed

lemma config_text_not_Nil: "ota_config_text cfg \<noteq> []"
  by (simp add: ota_config_text_def)

lemma config_text_initial_length:
  "length (ota_config_text (ota_config ota_initial_state)) = 496"
  by (simp add: ota_initial_state_def ota_config_text_def dec_of_nat.simps digit_char_def)

lemma example_check_update:
  "ota_module_check_update example_ota_env ota_initial_state = (True, ota_run_s1, [])"
  by code_simp

lemma example_download:
  "ota_module_download_firmware example_ota_env (Some ''monitor_ecu'') ota_run_s1
     = (True, ota_run_s2,
        [MqttDownloadFile ''can-esp/firmware/update/monitor_ecu'' ''firmware_monitor_ecu_v1.bin''])"
  by code_simp

lemma example_segment:
  "ota_module_segment_firmware example_ota_env (firmware_data (ota_ctx ota_run_s2))
     (firmware_size (ota_ctx ota_run_s2)) ota_run_s2 = (True, ota_run_s3)"
  by code_simp

lemma example_distribute:
  "ota_module_distribute_firmware example_ota_env (Some e) ota_run_s3
     = (True, ota_run_s4, [RoutingSend e \<lparr>data_seg = 0, size_seg = 3\<rparr>])"
  by (simp add: ota_module_distribute_firmware_def Let_def ota_run_s3_def ota_run_s4_def
      ota_run_s2_def ota_run_s1_def ota_initial_state_def set_status_def ota_notify_callbacks_def
      example_ota_env_def)

lemma example_apply:
  "ota_module_apply_update example_ota_env (Some e) ota_run_s4
     = (True, ota_run_s5,
        [SdWriteFile ''config.ini'' (ota_config_text (ota_config ota_initial_state)) 496])"
proof -
  have c: "ota_config ota_run_s4 = ota_config ota_initial_state"
    by (simp add: ota_run_s4_def ota_run_s2_def ota_run_s1_def)
  show ?thesis
    by (simp add: ota_module_apply_update_def example_ota_env_def set_status_def Let_def
        ota_notify_callbacks_def ota_module_update_config_def c config_text_initial_length
        config_text_not_Nil)
      (simp add: ota_run_s5_def ota_run_s4_def ota_run_s2_def ota_run_s1_def
        ota_initial_state_def)
qed

theorem C1_success_keeps_installed_version_witness:
  "ota_module_check_version (Some ''monitor_ecu'') 2 ota_initial_state = (True, ota_run_s1, [])
   \<and> ota_module_apply_update example_ota_env (Some ''monitor_ecu'')
        (ota_run_calls
           [(example_ota_env, Call_download_firmware (Some ''monitor_ecu'')),
            (example_ota_env, Call_segment_firmware (Some [0xE9, 0x01, 0x02]) 3),
            (example_ota_env, Call_distribute_firmware (Some ''monitor_ecu''))]
           ota_run_s1)
       = (True, ota_run_s5,
          [SdWriteFile ''config.ini'' (ota_config_text (ota_config ota_initial_state)) 496])
   \<and> status (ota_ctx ota_run_s5) = OTA_STATUS_SUCCESS
   \<and> ota_config ota_run_s5 = ota_config ota_initial_state
   \<and> (\<exists>installed. installed_version (ota_config ota_run_s5) ''monitor_ecu'' = Some installed
         \<and> installed < 2)"
proof -
  have h1: "ota_module_check_version (Some ''monitor_ecu'') 2 ota_initial_state
              = (True, ota_run_s1, [])"
    by code_simp
  have seg: "ota_module_segment_firmware example_ota_env (Some [0xE9, 0x01, 0x02]) 3 ota_run_s2
              = (True, ota_run_s3)"
    using example_segment by (simp add: ota_run_s2_def)
  have calls: "ota_run_calls
           [(example_ota_env, Call_download_firmware (Some ''monitor_ecu'')),
            (example_ota_env, Call_segment_firmware (Some [0xE9, 0x01, 0x02]) 3),
            (example_ota_env, Call_distribute_firmware (Some ''monitor_ecu''))]
           ota_run_s1 = ota_run_s4"
    by (simp add: example_download seg example_distribute)
  have h2: "ota_module_apply_update example_ota_env (Some ''monitor_ecu'')
        (ota_run_calls
           [(example_ota_env, Call_download_firmware (Some ''monitor_ecu'')),
            (example_ota_env, Call_segment_firmware (Some [0xE9, 0x01, 0x02]) 3),
            (example_ota_env, Call_distribute_firmware (Some ''monitor_ecu''))]
           ota_run_s1)
       = (True, ota_run_s5,
          [SdWriteFile ''config.ini'' (ota_config_text (ota_config ota_initial_state)) 496])"
    unfolding calls by (rule example_apply)
  from C1_success_keeps_installed_version [OF h1 h2] h1 h2
  show ?thesis
    by blast
qed

text \<open>
  A complete run in which every step succeeds: version 2 is advertised for the monitor
  ECU, whose installed version is 1; the run ends in SUCCESS, and the recorded version is
  still 1; the text handed to the SD card begins with \<open>OTA_FIRMWARE_VERSION_MONITOR=1\<close>.
\<close>

theorem C1_installed_version_counterexample:
  "mqtt_get_update_version example_ota_env (topic_monitor (ota_config ota_initial_state)) = Some 2
   \<and> ota_module_check_update example_ota_env ota_initial_state = (True, ota_run_s1, [])
   \<and> ota_module_download_firmware example_ota_env (Some ''monitor_ecu'') ota_run_s1
       = (True, ota_run_s2,
          [MqttDownloadFile ''can-esp/firmware/update/monitor_ecu'' ''firmware_monitor_ecu_v1.bin''])
   \<and> ota_module_segment_firmware example_ota_env (firmware_data (ota_ctx ota_run_s2))
         (firmware_size (ota_ctx ota_run_s2)) ota_run_s2 = (True, ota_run_s3)
   \<and> ota_module_distribute_firmware example_ota_env (Some ''monitor_ecu'') ota_run_s3
       = (True, ota_run_s4, [RoutingSend ''monitor_ecu'' \<lparr>data_seg = 0, size_seg = 3\<rparr>])
   \<and> ota_module_apply_update example_ota_env (Some ''monitor_ecu'') ota_run_s4
       = (True, ota_run_s5,
          [SdWriteFile ''config.ini'' (ota_config_text (ota_config ota_initial_state)) 496])
   \<and> status (ota_ctx ota_run_s5) = OTA_STATUS_SUCCESS
   \<and> installed_version (ota_config ota_run_s5) ''monitor_ecu'' = Some 1
   \<and> take 31 (ota_config_text (ota_config ota_initial_state))
       = ''OTA_FIRMWARE_VERSION_MONITOR=1'' @ [CHR 0x0A]"
proof -
  have a: "mqtt_get_update_version example_ota_env (topic_monitor (ota_config ota_initial_state))
             = Some 2"
    by (simp add: example_ota_env_def)
  have s: "status (ota_ctx ota_run_s5) = OTA_STATUS_SUCCESS"
    by (simp add: ota_run_s5_def)
  have v: "installed_version (ota_config ota_run_s5) ''monitor_ecu'' = Some 1"
    by (simp add: installed_version_def ota_run_s5_def ota_run_s1_def ota_initial_state_def)
  have t: "take 31 (ota_config_text (ota_config ota_initial_state))
             = ''OTA_FIRMWARE_VERSION_MONITOR=1'' @ [CHR 0x0A]"
    by (simp add: ota_initial_state_def ota_config_text_def dec_of_nat.simps digit_char_def)
  show ?thesis
    using a example_check_update example_download example_segment
      example_distribute [of "''monitor_ecu''"] example_apply [of "''monitor_ecu''"] s v t
    by blast
qed

subsection \<open>The guard against a second update\<close>

lemma set_status_flag [simp]:
  "update_in_progress (ota_ctx (set_status s st)) = update_in_progress (ota_ctx st)"
  by (simp add: set_status_def)

















subsection \<open>Unique keys in the routing table\<close>

lemma find_route_index_None:
  "find_route_index tbl d = None \<longleftrightarrow>
     (\<forall>i<count_rt tbl. c_string 32 (dest_id (entries_rt tbl ! i)) \<noteq> c_string 32 d)"
proof -
  have "find_route_index tbl d = None \<longleftrightarrow>
      filter (\<lambda>i. strncmp_eq (dest_id (entries_rt tbl ! i)) d 32) [0..<count_rt tbl] = []"
    by (simp add: find_route_index_def split: list.splits)
  then show ?thesis
    by (auto simp: filter_empty_conv strncmp_eq_def)
qed

lemma find_route_index_Some:
  assumes "find_route_index tbl d = Some i"
  shows "i < count_rt tbl \<and> c_string 32 (dest_id (entries_rt tbl ! i)) = c_string 32 d"
proof -
  from assms obtain js where
    "filter (\<lambda>i. strncmp_eq (dest_id (entries_rt tbl ! i)) d 32) [0..<count_rt tbl] = i # js"
    by (auto simp: find_route_index_def split: list.splits)
  then have "i \<in> set (filter (\<lambda>i. strncmp_eq (dest_id (entries_rt tbl ! i)) d 32) [0..<count_rt tbl])"
    by simp
  then show ?thesis
    by (simp add: strncmp_eq_def)
qed

lemma key_not_in_route_keys:
  assumes "find_route_index tbl d = None" and "count_rt tbl \<le> length (entries_rt tbl)"
  shows "c_string 32 d \<notin> set (route_keys tbl)"
proof
  assume "c_string 32 d \<in> set (route_keys tbl)"
  then obtain i where "i < length (route_keys tbl)" "route_keys tbl ! i = c_string 32 d"
    by (auto simp: in_set_conv_nth)
  then have "i < count_rt tbl" "c_string 32 (dest_id (entries_rt tbl ! i)) = c_string 32 d"
    using assms(2) by (simp_all add: route_keys_def)
  then show False
    using assms(1) by (simp add: find_route_index_None)
qed

lemma shift_entries_left_nth:
  assumes "i \<le> n" and "n < length es"
  shows "length (shift_entries_left i n es) = length es
       \<and> (\<forall>j<length es. shift_entries_left i n es ! j
              = (if i \<le> j \<and> j < n then es ! Suc j else es ! j))"
  using assms
proof (induction n)
  case 0
  then show ?case by (simp add: shift_entries_left_def)
next
  case (Suc n)
  show ?case
  proof (cases "i = Suc n")
    case True
    then show ?thesis by (auto simp: shift_entries_left_def)
  next
    case False
    then have le: "i \<le> n" and lt: "n < length es"
      using Suc.prems by simp_all
    have step: "shift_entries_left i (Suc n) es
          = (shift_entries_left i n es)[n := shift_entries_left i n es ! Suc n]"
      using le by (simp add: shift_entries_left_def)
    from Suc.IH[OF le lt] have
      len: "length (shift_entries_left i n es) = length es" and
      nth: "\<And>j. j < length es \<Longrightarrow> shift_entries_left i n es ! j
              = (if i \<le> j \<and> j < n then es ! Suc j else es ! j)"
      by simp_all
    have next_untouched: "shift_entries_left i n es ! Suc n = es ! Suc n"
      using nth[of "Suc n"] Suc.prems by simp
    show ?thesis
      unfolding step next_untouched
    proof (intro conjI allI impI)
      show "length ((shift_entries_left i n es)[n := es ! Suc n]) = length es"
        using len by simp
    next
      fix j
      assume j: "j < length es"
      show "(shift_entries_left i n es)[n := es ! Suc n] ! j
              = (if i \<le> j \<and> j < Suc n then es ! Suc j else es ! j)"
      proof (cases "j = n")
        case True
        then show ?thesis using len lt le by simp
      next
        case False
        then show ?thesis using nth[OF j] by auto
      qed
    qed
  qed
qed

lemma insert_route_table_ok:
  assumes "table_ok (routing_table st)"
  shows "table_ok (routing_table (fst (snd (routing_module_insert_route entry st))))"
proof (cases entry)
  case None
  then show ?thesis using assms by (simp add: routing_module_insert_route_def)
next
  case (Some e)
  let ?tbl = "routing_table st"
  let ?c = "count_rt ?tbl"
  let ?es = "entries_rt ?tbl"
  show ?thesis
  proof (cases "find_route_index ?tbl (dest_id e) = None \<and> ?c < MAX_ROUTING_TABLE_ENTRIES")
    case False
    then show ?thesis
      using assms Some by (auto simp: routing_module_insert_route_def split: option.splits)
  next
    case True
    then have free: "find_route_index ?tbl (dest_id e) = None" and room: "?c < length ?es"
      using assms by (simp_all add: table_ok_def)
    have new: "c_string 32 (dest_id e) \<notin> set (route_keys ?tbl)"
      using key_not_in_route_keys[OF free] room by simp
    have "take (Suc ?c) (?es[?c := e]) = take ?c ?es @ [e]"
      using room by (simp add: take_Suc_conv_app_nth)
    then have keys: "route_keys (?tbl\<lparr>entries_rt := ?es[?c := e], count_rt := ?c + 1\<rparr>)
          = route_keys ?tbl @ [c_string 32 (dest_id e)]"
      by (simp add: route_keys_def)
    have "table_ok (?tbl\<lparr>entries_rt := ?es[?c := e], count_rt := ?c + 1\<rparr>)"
      using assms True new unfolding table_ok_def keys by simp
    then show ?thesis
      using Some True by (simp add: routing_module_insert_route_def Let_def)
  qed
qed

lemma update_route_table_ok:
  assumes "table_ok (routing_table st)"
  shows "table_ok (routing_table (fst (snd (routing_module_update_route entry st))))"
proof (cases entry)
  case None
  then show ?thesis using assms by (simp add: routing_module_update_route_def)
next
  case (Some e)
  let ?tbl = "routing_table st"
  let ?c = "count_rt ?tbl"
  let ?es = "entries_rt ?tbl"
  show ?thesis
  proof (cases "find_route_index ?tbl (dest_id e)")
    case None
    then show ?thesis using assms Some by (simp add: routing_module_update_route_def)
  next
    case (Some i)
    from find_route_index_Some[OF Some] have
      i: "i < ?c" and same: "c_string 32 (dest_id (?es ! i)) = c_string 32 (dest_id e)"
      by simp_all
    have len: "?c \<le> length ?es"
      using assms by (simp add: table_ok_def)
    have "map (\<lambda>e. c_string 32 (dest_id e)) (take ?c (?es[i := e]))
        = (map (\<lambda>e. c_string 32 (dest_id e)) (take ?c ?es))[i := c_string 32 (dest_id e)]"
      by (simp add: take_update_swap map_update)
    also have "\<dots> = map (\<lambda>e. c_string 32 (dest_id e)) (take ?c ?es)"
      using i len same by (simp add: list_update_same_conv)
    finally have keys: "route_keys (?tbl\<lparr>entries_rt := ?es[i := e]\<rparr>) = route_keys ?tbl"
      by (simp add: route_keys_def)
    have "table_ok (?tbl\<lparr>entries_rt := ?es[i := e]\<rparr>)"
      using assms unfolding table_ok_def keys by simp
    then show ?thesis
      using Some \<open>entry = Some e\<close> by (simp add: routing_module_update_route_def Let_def)
  qed
qed

lemma removed_entries:
  assumes i: "i < c" and c: "c \<le> length es"
  shows "take (c - 1) ((shift_entries_left i (c - 1) es)[c - 1 := z])
           = take i (take c es) @ drop (Suc i) (take c es)"
proof -
  have le: "i \<le> c - 1" and lt: "c - 1 < length es"
    using i c by simp_all
  from shift_entries_left_nth[OF le lt] have
    len: "length (shift_entries_left i (c - 1) es) = length es" and
    nth: "\<And>j. j < length es \<Longrightarrow> shift_entries_left i (c - 1) es ! j
              = (if i \<le> j \<and> j < c - 1 then es ! Suc j else es ! j)"
    by simp_all
  show ?thesis
  proof (rule nth_equalityI)
    show "length (take (c - 1) ((shift_entries_left i (c - 1) es)[c - 1 := z]))
            = length (take i (take c es) @ drop (Suc i) (take c es))"
      using i c len by simp
  next
    fix j
    assume "j < length (take (c - 1) ((shift_entries_left i (c - 1) es)[c - 1 := z]))"
    then have j: "j < c - 1"
      by simp
    then have jl: "j < length es"
      using c by simp
    have "take (c - 1) ((shift_entries_left i (c - 1) es)[c - 1 := z]) ! j
        = shift_entries_left i (c - 1) es ! j"
      using j by simp
    also have "\<dots> = (if i \<le> j then es ! Suc j else es ! j)"
      using nth[OF jl] j by simp
    also have "\<dots> = (take i (take c es) @ drop (Suc i) (take c es)) ! j"
      using i c j by (auto simp: nth_append min_def)
    finally show "take (c - 1) ((shift_entries_left i (c - 1) es)[c - 1 := z]) ! j
        = (take i (take c es) @ drop (Suc i) (take c es)) ! j" .
  qed
qed

lemma distinct_map_remove_nth:
  assumes "distinct (map f xs)"
  shows "distinct (map f (take i xs @ drop (Suc i) xs))"
proof (cases "i < length xs")
  case True
  then have "xs = take i xs @ xs ! i # drop (Suc i) xs"
    by (rule id_take_nth_drop)
  then have "distinct (map f (take i xs @ xs ! i # drop (Suc i) xs))"
    using assms by simp
  then show ?thesis
    by auto
next
  case False
  then show ?thesis using assms by simp
qed

lemma remove_route_table_ok:
  assumes "table_ok (routing_table st)"
  shows "table_ok (routing_table (fst (snd (routing_module_remove_route dest st))))"
proof (cases dest)
  case None
  then show ?thesis using assms by (simp add: routing_module_remove_route_def)
next
  case (Some d)
  let ?tbl = "routing_table st"
  let ?c = "count_rt ?tbl"
  let ?es = "entries_rt ?tbl"
  show ?thesis
  proof (cases "find_route_index ?tbl d")
    case None
    then show ?thesis using assms Some by (simp add: routing_module_remove_route_def)
  next
    case (Some i)
    from find_route_index_Some[OF Some] have i: "i < ?c"
      by simp
    have c: "?c \<le> length ?es"
      using assms by (simp add: table_ok_def)
    let ?es2 = "(shift_entries_left i (?c - 1) ?es)[?c - 1 := zero_routing_entry]"
    have len2: "length ?es2 = length ?es"
      using shift_entries_left_nth[of i "?c - 1" ?es] i c by simp
    have keys: "route_keys (?tbl\<lparr>entries_rt := ?es2, count_rt := ?c - 1\<rparr>)
          = map (\<lambda>e. c_string 32 (dest_id e)) (take i (take ?c ?es) @ drop (Suc i) (take ?c ?es))"
      using removed_entries[OF i c] by (simp add: route_keys_def)
    have "distinct (map (\<lambda>e. c_string 32 (dest_id e)) (take ?c ?es))"
      using assms by (simp add: table_ok_def route_keys_def)
    then have "distinct (route_keys (?tbl\<lparr>entries_rt := ?es2, count_rt := ?c - 1\<rparr>))"
      unfolding keys by (rule distinct_map_remove_nth)
    moreover have "?c - 1 \<le> MAX_ROUTING_TABLE_ENTRIES"
      using assms by (auto simp: table_ok_def)
    moreover have "length ?es2 = MAX_ROUTING_TABLE_ENTRIES"
      using assms len2 by (simp add: table_ok_def)
    ultimately have "table_ok (?tbl\<lparr>entries_rt := ?es2, count_rt := ?c - 1\<rparr>)"
      by (simp add: table_ok_def)
    then show ?thesis
      using Some \<open>dest = Some d\<close> by (simp add: routing_module_remove_route_def Let_def)
  qed
qed

lemma apply_route_op_table_ok:
  "table_ok (routing_table st) \<Longrightarrow> table_ok (routing_table (apply_route_op x st))"
  by (cases x)
    (simp_all add: insert_route_table_ok update_route_table_ok remove_route_table_ok)

lemma apply_route_ops_table_ok:
  "table_ok (routing_table st) \<Longrightarrow> table_ok (routing_table (apply_route_ops ops st))"
  unfolding apply_route_ops_def
  by (induction ops arbitrary: st) (simp_all add: apply_route_op_table_ok)

lemma initial_table_ok: "table_ok (routing_table routing_initial_state)"
  by (simp add: table_ok_def routing_initial_state_def route_keys_def)

lemma insert_existing_rejected:
  assumes "i < count_rt (routing_table st)"
    and "strncmp_eq (dest_id (entries_rt (routing_table st) ! i)) (dest_id e) 32"
  shows "routing_module_insert_route (Some e) st = (False, st, [])"
proof -
  have "find_route_index (routing_table st) (dest_id e) \<noteq> None"
    using assms by (auto simp: find_route_index_None strncmp_eq_def)
  then show ?thesis
    by (auto simp: routing_module_insert_route_def)
qed

text \<open>
  Claim C8. After any sequence of \<^verbatim>\<open>routing_module_insert_route\<close>,
  \<^verbatim>\<open>routing_module_update_route\<close> and \<^verbatim>\<open>routing_module_remove_route\<close> calls on the initially
  empty table, no two used slots hold the same \<^verbatim>\<open>dest_id\<close> (as \<^verbatim>\<open>strncmp\<close> over the 32-byte
  field compares them); and in any state, an insertion whose key is already in a used slot
  returns false, leaves the state as it is and notifies nobody.
\<close>

theorem C8_no_duplicate_dest_id:
  "(\<forall>i j. i < j \<and> j < count_rt (routing_table (apply_route_ops ops routing_initial_state)) \<longrightarrow>
       \<not> strncmp_eq
           (dest_id (entries_rt (routing_table (apply_route_ops ops routing_initial_state)) ! i))
           (dest_id (entries_rt (routing_table (apply_route_ops ops routing_initial_state)) ! j))
           32)
   \<and> (k < count_rt (routing_table st)
        \<and> strncmp_eq (dest_id (entries_rt (routing_table st) ! k)) (dest_id e) 32
      \<longrightarrow> routing_module_insert_route (Some e) st = (False, st, []))"
proof (intro conjI allI impI)
  let ?tbl = "routing_table (apply_route_ops ops routing_initial_state)"
  fix i j
  assume ij: "i < j \<and> j < count_rt ?tbl"
  have ok: "table_ok ?tbl"
    using initial_table_ok by (rule apply_route_ops_table_ok)
  then have len: "count_rt ?tbl \<le> length (entries_rt ?tbl)" and d: "distinct (route_keys ?tbl)"
    by (simp_all add: table_ok_def)
  have "length (route_keys ?tbl) = count_rt ?tbl"
    using len by (simp add: route_keys_def)
  then have "route_keys ?tbl ! i \<noteq> route_keys ?tbl ! j"
    using d ij by (simp add: distinct_conv_nth)
  then show "\<not> strncmp_eq (dest_id (entries_rt ?tbl ! i)) (dest_id (entries_rt ?tbl ! j)) 32"
    using ij len by (simp add: route_keys_def strncmp_eq_def)
next
  assume "k < count_rt (routing_table st)
        \<and> strncmp_eq (dest_id (entries_rt (routing_table st) ! k)) (dest_id e) 32"
  then show "routing_module_insert_route (Some e) st = (False, st, [])"
    using insert_existing_rejected by blast
qed

text \<open>
  The theorem at a concrete run: two insertions, a repeated insertion and an update leave
  two entries with different keys, and the repeated insertion is refused.
\<close>

theorem C8_no_duplicate_dest_id_witness:
  "count_rt (routing_table (apply_route_ops
       [Insert_route (Some example_route_a), Insert_route (Some example_route_b),
        Insert_route (Some example_route_a), Update_route (Some example_route_b)]
       routing_initial_state)) = 2
   \<and> \<not> strncmp_eq
         (dest_id (entries_rt (routing_table (apply_route_ops
            [Insert_route (Some example_route_a), Insert_route (Some example_route_b),
             Insert_route (Some example_route_a), Update_route (Some example_route_b)]
            routing_initial_state)) ! 0))
         (dest_id (entries_rt (routing_table (apply_route_ops
            [Insert_route (Some example_route_a), Insert_route (Some example_route_b),
             Insert_route (Some example_route_a), Update_route (Some example_route_b)]
            routing_initial_state)) ! 1))
         32
   \<and> routing_module_insert_route (Some example_route_b)
        (apply_route_ops [Insert_route (Some example_route_a), Insert_route (Some example_route_b)]
           routing_initial_state)
       = (False,
          apply_route_ops [Insert_route (Some example_route_a), Insert_route (Some example_route_b)]
            routing_initial_state,
          [])"
proof -
  let ?ops = "[Insert_route (Some example_route_a), Insert_route (Some example_route_b),
        Insert_route (Some example_route_a), Update_route (Some example_route_b)]"
  let ?st = "apply_route_ops [Insert_route (Some example_route_a), Insert_route (Some example_route_b)]
           routing_initial_state"
  have c: "count_rt (routing_table (apply_route_ops ?ops routing_initial_state)) = 2"
    by code_simp
  have h: "1 < count_rt (routing_table ?st)
        \<and> strncmp_eq (dest_id (entries_rt (routing_table ?st) ! 1)) (dest_id example_route_b) 32"
    by code_simp
  from C8_no_duplicate_dest_id [of ?ops 1 ?st example_route_b] c h
  show ?thesis
    by simp
qed

subsection \<open>Persisting the routing configuration\<close>

text \<open>
  Claim C3. When \<^verbatim>\<open>config.ini\<close> cannot be opened, \<^verbatim>\<open>routing_module_save_config\<close> reports
  false, yet \<^verbatim>\<open>routing_module_set_config\<close> with a non-null configuration returns true: the
  in-memory configuration is the new one and nothing has been written.
\<close>

theorem C3_set_config_ignores_save_failure:
  "fst (routing_module_save_config False (st\<lparr>routing_config := c\<rparr>)) = False
   \<and> routing_module_set_config False (Some c) st = (True, st\<lparr>routing_config := c\<rparr>, [])"
  by (simp add: routing_module_save_config_def routing_module_set_config_def Let_def)

subsection \<open>Broadcast\<close>

lemma recalculate_routes_mutex_held:
  "routing_module_recalculate_routes True ticks st = Blocks st []"
  by (simp add: routing_module_recalculate_routes_def)

lemma unicast_retry_blocks:
  "unicast_retry (Suc n) ticks dest attempts st es
     = Blocks st (es @ [RoutingDelay (retry_delay_ms (routing_config st))])"
  by (simp add: recalculate_routes_mutex_held)








subsection \<open>The alert notification callback\<close>

lemma logger_callback_effect_no_notification:
  "filter is_NotificationCallbackCall
     (case oc of None \<Rightarrow> [] | Some cb \<Rightarrow> [LoggerAlertCallbackCall cb e]) = []"
  by (cases oc) simp_all

lemma logger_module_log_Some_no_notification:
  "filter is_NotificationCallbackCall (snd (logger_module_log rtc level (Some m) st)) = []"
  unfolding logger_module_log_def logger_module_get_rtc_timestamp_def
  apply (simp only: option.case)
  apply (simp only: prod.case)
  apply (simp only: Let_def)
  apply (simp only: if_distrib [of snd] if_distrib [of "filter is_NotificationCallbackCall"] snd_conv)
  apply (simp only: logger_callback_effect_no_notification filter.simps if_cancel)
  done

lemma logger_module_log_no_notification:
  "filter is_NotificationCallbackCall (snd (logger_module_log rtc level t st)) = []"
proof (cases t)
  case None
  then show ?thesis by (simp add: logger_module_log_def)
next
  case (Some m)
  show ?thesis
    unfolding Some by (rule logger_module_log_Some_no_notification)
qed

lemma logger_module_log_alert_no_notification:
  "filter is_NotificationCallbackCall (snd (logger_module_log_alert rtc level message st)) = []"
  by (cases message) (simp_all add: logger_module_log_alert_def logger_module_log_no_notification)

lemma register_alert_no_notification:
  "filter is_NotificationCallbackCall (snd (register_alert rtc level message st)) = []"
proof (cases message)
  case None
  then show ?thesis by (simp add: register_alert_def)
next
  case (Some m)
  obtain ts st1 where t: "logger_module_get_rtc_timestamp rtc st = (ts, st1)"
    by (cases "logger_module_get_rtc_timestamp rtc st")
  let ?entry = "\<lparr>timestamp_alert = ts, level_alert = level, message_alert = take 127 m\<rparr>"
  let ?st2 = "st1\<lparr>alert_history := (alert_history st1)[unat (alert_index st1) := ?entry]\<rparr>"
  obtain st3 es where l: "logger_module_log_alert rtc (logger_level_of_alert level)
      (Some (take 127 m)) ?st2 = (st3, es)"
    by (cases "logger_module_log_alert rtc (logger_level_of_alert level) (Some (take 127 m)) ?st2")
  have "filter is_NotificationCallbackCall es = []"
    using logger_module_log_alert_no_notification
      [of rtc "logger_level_of_alert level" "Some (take 127 m)" ?st2] l by simp
  then show ?thesis
    using Some t l by (simp add: register_alert_def Let_def)
qed

lemma register_alert_if_no_notification:
  assumes "filter is_NotificationCallbackCall (snd acc) = []"
  shows "filter is_NotificationCallbackCall (snd (register_alert_if cond rtc level message acc)) = []"
  using assms register_alert_no_notification[of rtc level "Some message" "fst acc"]
  by (auto simp: register_alert_if_def split: prod.splits)

lemma check_conditions_no_notification:
  "filter is_NotificationCallbackCall (snd (alert_module_check_conditions rtc diag st)) = []"
  by (cases diag)
    (simp_all add: alert_module_check_conditions_def register_alert_if_no_notification)

lemma alert_run_call_no_notification:
  "filter is_NotificationCallbackCall (snd (alert_run_call rtc c st)) = []"
  by (cases c) (simp_all add: check_conditions_no_notification)

lemma alert_run_calls_no_notification:
  "filter is_NotificationCallbackCall (snd (alert_run_calls rtc cs st)) = []"
proof (induction cs arbitrary: st)
  case Nil
  then show ?case by simp
next
  case (Cons c cs)
  obtain st1 es1 where a: "alert_run_call rtc c st = (st1, es1)"
    by (cases "alert_run_call rtc c st")
  obtain st2 es2 where b: "alert_run_calls rtc cs st1 = (st2, es2)"
    by (cases "alert_run_calls rtc cs st1")
  have "filter is_NotificationCallbackCall es1 = []"
    using alert_run_call_no_notification[of rtc c st] a by simp
  moreover have "filter is_NotificationCallbackCall es2 = []"
    using Cons.IH[of st1] b by simp
  ultimately show ?case
    using a b by simp
qed

lemma logger_log_alert_frame:
  "alert_history (fst (logger_module_log_alert rtc l t s)) = alert_history s
   \<and> alert_index (fst (logger_module_log_alert rtc l t s)) = alert_index s"
  by (auto simp: logger_module_log_alert_def logger_module_log_def
      logger_module_get_rtc_timestamp_def Let_def split: option.splits)

lemma register_alert_unfold:
  "register_alert rtc level (Some m) st
     = (case logger_module_log_alert rtc (logger_level_of_alert level) (Some (take 127 m))
              (st\<lparr>rtc_reads := rtc_reads st + 1,
                  alert_history := (alert_history st)[unat (alert_index st) :=
                    \<lparr>timestamp_alert = rtc (rtc_reads st), level_alert = level,
                     message_alert = take 127 m\<rparr>]\<rparr>) of
          (st3, es) \<Rightarrow> (st3\<lparr>alert_index := (alert_index st3 + 1) mod 100\<rparr>, es))"
  by (simp add: register_alert_def logger_module_get_rtc_timestamp_def Let_def
      ALERT_HISTORY_SIZE_def)

lemma register_alert_ring:
  "alert_history (fst (register_alert rtc level (Some m) st))
     = (alert_history st)[unat (alert_index st) :=
          \<lparr>timestamp_alert = rtc (rtc_reads st), level_alert = level,
           message_alert = take 127 m\<rparr>]
   \<and> alert_index (fst (register_alert rtc level (Some m) st)) = (alert_index st + 1) mod 100"
proof -
  let ?st2 = "st\<lparr>rtc_reads := rtc_reads st + 1,
                  alert_history := (alert_history st)[unat (alert_index st) :=
                    \<lparr>timestamp_alert = rtc (rtc_reads st), level_alert = level,
                     message_alert = take 127 m\<rparr>]\<rparr>"
  obtain st3 es where l: "logger_module_log_alert rtc (logger_level_of_alert level)
      (Some (take 127 m)) ?st2 = (st3, es)"
    by (cases "logger_module_log_alert rtc (logger_level_of_alert level) (Some (take 127 m)) ?st2")
  have "alert_history st3 = alert_history ?st2 \<and> alert_index st3 = alert_index ?st2"
    using logger_log_alert_frame[of rtc "logger_level_of_alert level" "Some (take 127 m)" ?st2] l
    by simp
  then show ?thesis
    unfolding register_alert_unfold l by simp
qed

text \<open>
  Claim C10. \<^verbatim>\<open>alert_module_register_notification_callback\<close> stores the callback, and no
  sequence of alert-module calls that follows the registration ever calls through it, the
  alerts raised by \<^verbatim>\<open>alert_module_check_conditions\<close> included. For each alert,
  \<^verbatim>\<open>register_alert\<close> writes the ring entry at the current index, advances the index modulo
  100 and hands the stored message to \<^verbatim>\<open>logger_module_log_alert\<close>; the callback calls it
  makes are those of the logger, none of them through the notification callback.
\<close>

theorem C10_notification_callback_never_invoked:
  "filter is_NotificationCallbackCall
     (snd (alert_run_calls rtc (Alert_register_notification_callback (Some cb) # calls) st)) = []
   \<and> notification_callback (alert_module_register_notification_callback (Some cb) st) = Some cb
   \<and> filter is_NotificationCallbackCall (snd (register_alert rtc level (Some m) st)) = []
   \<and> alert_history (fst (register_alert rtc level (Some m) st))
       = (alert_history st)[unat (alert_index st) :=
            \<lparr>timestamp_alert = rtc (rtc_reads st), level_alert = level,
             message_alert = take 127 m\<rparr>]
   \<and> alert_index (fst (register_alert rtc level (Some m) st))
       = (alert_index st + 1) mod 100
   \<and> register_alert rtc level (Some m) st
       = (case logger_module_log_alert rtc (logger_level_of_alert level) (Some (take 127 m))
                (st\<lparr>rtc_reads := rtc_reads st + 1,
                    alert_history := (alert_history st)[unat (alert_index st) :=
                      \<lparr>timestamp_alert = rtc (rtc_reads st), level_alert = level,
                       message_alert = take 127 m\<rparr>]\<rparr>) of
            (st3, es) \<Rightarrow> (st3\<lparr>alert_index := (alert_index st3 + 1) mod 100\<rparr>, es))"
proof (intro conjI)
  show "filter is_NotificationCallbackCall
     (snd (alert_run_calls rtc (Alert_register_notification_callback (Some cb) # calls) st)) = []"
    by (rule alert_run_calls_no_notification)
  show "notification_callback (alert_module_register_notification_callback (Some cb) st) = Some cb"
    by (simp add: alert_module_register_notification_callback_def)
  show "filter is_NotificationCallbackCall (snd (register_alert rtc level (Some m) st)) = []"
    by (rule register_alert_no_notification)
  show "alert_history (fst (register_alert rtc level (Some m) st))
       = (alert_history st)[unat (alert_index st) :=
            \<lparr>timestamp_alert = rtc (rtc_reads st), level_alert = level,
             message_alert = take 127 m\<rparr>]"
    using register_alert_ring by blast
  show "alert_index (fst (register_alert rtc level (Some m) st)) = (alert_index st + 1) mod 100"
    using register_alert_ring by blast
  show "register_alert rtc level (Some m) st
       = (case logger_module_log_alert rtc (logger_level_of_alert level) (Some (take 127 m))
                (st\<lparr>rtc_reads := rtc_reads st + 1,
                    alert_history := (alert_history st)[unat (alert_index st) :=
                      \<lparr>timestamp_alert = rtc (rtc_reads st), level_alert = level,
                       message_alert = take 127 m\<rparr>]\<rparr>) of
            (st3, es) \<Rightarrow> (st3\<lparr>alert_index := (alert_index st3 + 1) mod 100\<rparr>, es))"
    by (rule register_alert_unfold)
qed

end
